theory Spec2Isabelle
  imports Complex_Main
begin

section \<open>Exceptions as values\<close>

text \<open>
  Every Python exception the modelled code can raise is a value of \<open>error\<close>; a call
  that may raise returns \<open>error + 'a\<close> with \<open>Inl\<close> for the exception.
\<close>

datatype error =
  ValueError | RuntimeError | TypeError | AttributeError | IndexError | KeyError | OSError

definition rbind :: "error + 'a \<Rightarrow> ('a \<Rightarrow> error + 'b) \<Rightarrow> error + 'b" where
  "rbind m f = (case m of Inl e \<Rightarrow> Inl e | Inr v \<Rightarrow> f v)"

section \<open>Tensors\<close>

text \<open>
  A tensor is its dtype, its shape and its elements in row-major order. Elements are real
  numbers: the rounding of the floating-point formats is not modelled, and a cast changes
  the dtype only. The dtype decides where torch refuses to multiply matrices of two
  different dtypes, and how results are promoted. Only floating-point dtypes occur.
  A tensor is well formed when it has as many elements as its shape says.
\<close>

datatype dtype = BFloat16 | Float16 | Float32 | Float64

datatype tensor = Tensor (dtype_of: dtype) (shape: "nat list") (vals: "real list")

definition wf_tensor :: "tensor \<Rightarrow> bool" where
  "wf_tensor t = (length (vals t) = prod_list (shape t))"

type_synonym device = string

text \<open>\<open>t.to(device=dev, dtype=dt)\<close> and \<open>t.to(dt)\<close>.\<close>

definition to_device :: "device \<Rightarrow> dtype \<Rightarrow> tensor \<Rightarrow> tensor" where
  "to_device dev dt t = Tensor dt (shape t) (vals t)"

definition to_dtype :: "dtype \<Rightarrow> tensor \<Rightarrow> tensor" where
  "to_dtype dt t = Tensor dt (shape t) (vals t)"

text \<open>
  Type promotion of two floating-point dtypes: the two 16-bit formats meet in float32.
  A tensor without dimensions does not raise the dtype of one with dimensions.
\<close>

definition promote :: "dtype \<Rightarrow> dtype \<Rightarrow> dtype" where
  "promote a b =
     (if a = b then a else if a = Float64 \<or> b = Float64 then Float64 else Float32)"

definition result_dtype :: "tensor \<Rightarrow> tensor \<Rightarrow> dtype" where
  "result_dtype a b =
     (if shape a = [] \<and> shape b \<noteq> [] then dtype_of b
      else if shape b = [] \<and> shape a \<noteq> [] then dtype_of a
      else promote (dtype_of a) (dtype_of b))"

text \<open>
  Inside \<open>torch.cuda.amp.autocast(dtype=torch.bfloat16)\<close> an operation with a cast policy
  casts its floating-point arguments, float64 excepted, before it runs: \<open>F.linear\<close> to
  bfloat16 and \<open>F.layer_norm\<close> to float32. Whether a call runs inside autocast is an
  argument \<open>autocast\<close> of the functions of the model.
\<close>

definition autocast_to :: "bool \<Rightarrow> dtype \<Rightarrow> tensor \<Rightarrow> tensor" where
  "autocast_to autocast dt t =
     (if autocast \<and> dtype_of t \<noteq> Float64 then Tensor dt (shape t) (vals t) else t)"

text \<open>An elementwise function of one tensor, and of a tensor and a Python number.\<close>

definition tmap :: "(real \<Rightarrow> real) \<Rightarrow> tensor \<Rightarrow> tensor" where
  "tmap f t = Tensor (dtype_of t) (shape t) (map f (vals t))"

text \<open>The \<open>n\<close> consecutive rows of width \<open>k\<close> of a flat list.\<close>

definition rows_of :: "nat \<Rightarrow> nat \<Rightarrow> 'a list \<Rightarrow> 'a list list" where
  "rows_of n k xs = map (\<lambda>i. take k (drop (i * k) xs)) [0..<n]"

text \<open>\<open>t.reshape(s)\<close> with explicit sizes: the element counts must agree.\<close>

definition reshape :: "tensor \<Rightarrow> nat list \<Rightarrow> error + tensor" where
  "reshape t s =
     (if prod_list s = prod_list (shape t) then Inr (Tensor (dtype_of t) s (vals t))
      else Inl RuntimeError)"

text \<open>All multi-indices of a shape in row-major order, and the flat offset of one.\<close>

fun indices :: "nat list \<Rightarrow> nat list list" where
  "indices [] = [[]]"
| "indices (d # ds) = concat (map (\<lambda>i. map (\<lambda>ix. i # ix) (indices ds)) [0..<d])"

definition flat_offset :: "nat list \<Rightarrow> nat list \<Rightarrow> nat" where
  "flat_offset s ix = foldl (\<lambda>acc (d, i). acc * d + i) 0 (zip s ix)"

definition index_of :: "nat list \<Rightarrow> nat \<Rightarrow> nat" where
  "index_of p q = length (takeWhile (\<lambda>x. x \<noteq> q) p)"

text \<open>
  \<open>t.permute(p)\<close>: dimension \<open>k\<close> of the result is dimension \<open>p ! k\<close> of \<open>t\<close>; \<open>p\<close> must
  name every dimension once.
\<close>

definition permute :: "tensor \<Rightarrow> nat list \<Rightarrow> error + tensor" where
  "permute t p =
     (if length p = length (shape t) \<and> distinct p \<and> list_all (\<lambda>q. q < length (shape t)) p
      then let s' = map (\<lambda>q. shape t ! q) p
           in Inr (Tensor (dtype_of t) s'
                (map (\<lambda>j. vals t ! flat_offset (shape t)
                              (map (\<lambda>q. j ! index_of p q) [0..<length (shape t)]))
                     (indices s')))
      else Inl RuntimeError)"

text \<open>
  \<open>F.pad(t, (0, pad_w, 0, pad_h))\<close>: zeros to the right of the last dimension and
  below the one before it.
\<close>

definition F_pad :: "tensor \<Rightarrow> nat \<Rightarrow> nat \<Rightarrow> error + tensor" where
  "F_pad t pad_w pad_h =
     (if length (shape t) < 2 then Inl RuntimeError
      else let pre = butlast (butlast (shape t));
               h = last (butlast (shape t));
               w = last (shape t)
           in Inr (Tensor (dtype_of t) (pre @ [h + pad_h, w + pad_w])
                (concat (map (\<lambda>plane.
                     concat (map (\<lambda>r. r @ replicate pad_w 0) (rows_of h w plane))
                       @ replicate (pad_h * (w + pad_w)) 0)
                   (rows_of (prod_list pre) (h * w) (vals t))))))"

text \<open>\<open>x[:, :, :oh, :ow]\<close> on a tensor of rank four.\<close>

definition crop4 :: "tensor \<Rightarrow> nat \<Rightarrow> nat \<Rightarrow> error + tensor" where
  "crop4 t oh ow =
     (case shape t of
        [b, c, h, w] \<Rightarrow>
          Inr (Tensor (dtype_of t) [b, c, min oh h, min ow w]
            (concat (map (\<lambda>plane. concat (map (take ow) (take oh (rows_of h w plane))))
               (rows_of (b * c) (h * w) (vals t)))))
      | _ \<Rightarrow> Inl IndexError)"

text \<open>
  Broadcasting of an elementwise binary operation: shapes are aligned at the last
  dimension, two sizes are compatible when they are equal or one of them is 1.
\<close>

fun bshape_rev :: "nat list \<Rightarrow> nat list \<Rightarrow> nat list option" where
  "bshape_rev [] ys = Some ys"
| "bshape_rev xs [] = Some xs"
| "bshape_rev (x # xs) (y # ys) =
     (if x = y \<or> y = 1 then map_option ((#) x) (bshape_rev xs ys)
      else if x = 1 then map_option ((#) y) (bshape_rev xs ys)
      else None)"

definition bshape :: "nat list \<Rightarrow> nat list \<Rightarrow> nat list option" where
  "bshape sa sb = map_option rev (bshape_rev (rev sa) (rev sb))"

definition lead1 :: "nat \<Rightarrow> nat list \<Rightarrow> nat list" where
  "lead1 r s = replicate (r - length s) 1 @ s"

fun bc :: "(real \<Rightarrow> real \<Rightarrow> real) \<Rightarrow> nat list \<Rightarrow> real list \<Rightarrow> nat list \<Rightarrow> real list \<Rightarrow> real list" where
  "bc f [] xa [] xb = map2 f (take 1 xa) (take 1 xb)"
| "bc f (da # sa) xa (db # sb) xb =
     (if da = db
      then concat (map2 (\<lambda>ra rb. bc f sa ra sb rb)
             (rows_of da (prod_list sa) xa) (rows_of db (prod_list sb) xb))
      else if da = 1
      then concat (map (\<lambda>rb. bc f sa (take (prod_list sa) xa) sb rb)
             (rows_of db (prod_list sb) xb))
      else concat (map (\<lambda>ra. bc f sa ra sb (take (prod_list sb) xb))
             (rows_of da (prod_list sa) xa)))"
| "bc f sa xa sb xb = []"

definition tbin :: "(real \<Rightarrow> real \<Rightarrow> real) \<Rightarrow> tensor \<Rightarrow> tensor \<Rightarrow> error + tensor" where
  "tbin f a b =
     (case bshape (shape a) (shape b) of
        None \<Rightarrow> Inl RuntimeError
      | Some s \<Rightarrow>
          Inr (Tensor (result_dtype a b) s
                (bc f (lead1 (length s) (shape a)) (vals a)
                      (lead1 (length s) (shape b)) (vals b))))"

definition tmul :: "tensor \<Rightarrow> tensor \<Rightarrow> error + tensor" where
  "tmul a b = tbin (*) a b"

definition tadd :: "tensor \<Rightarrow> tensor \<Rightarrow> error + tensor" where
  "tadd a b = tbin (+) a b"

definition tsub :: "tensor \<Rightarrow> tensor \<Rightarrow> error + tensor" where
  "tsub a b = tbin (-) a b"

text \<open>
  \<open>F.linear(x, weight, bias)\<close>. The weight is a matrix of shape \<open>[out, in]\<close> or a vector of
  shape \<open>[in]\<close>, applied to the last dimension of \<open>x\<close>; input and weight (and bias) must
  have one dtype after the casts of autocast. With a bias, an input of rank 2 or 3 (all
  inputs here are contiguous) or a bias of rank 1 takes the fused path: the input is
  flattened to its rows, the weight must be a matrix and the bias must expand to
  \<open>[rows, out]\<close>. Otherwise the bias is added in place to the product and must expand to
  its shape.
\<close>

definition dot :: "real list \<Rightarrow> real list \<Rightarrow> real" where
  "dot xs ys = sum_list (map2 (*) xs ys)"

definition F_linear :: "bool \<Rightarrow> tensor \<Rightarrow> tensor \<Rightarrow> tensor option \<Rightarrow> error + tensor" where
  "F_linear autocast input weight0 bias0 =
     (let x = autocast_to autocast BFloat16 input;
          weight = autocast_to autocast BFloat16 weight0;
          bias = map_option (autocast_to autocast BFloat16) bias0;
          pre = butlast (shape x);
          n = prod_list pre;
          inp = last (shape x)
      in if shape x = [] \<or> shape weight = [] \<or> 2 < length (shape weight)
            \<or> inp \<noteq> last (shape weight)
         then Inl RuntimeError
         else if dtype_of x \<noteq> dtype_of weight
            \<or> (case bias of None \<Rightarrow> False | Some b \<Rightarrow> dtype_of b \<noteq> dtype_of x)
         then Inl RuntimeError
         else let out = (if length (shape weight) = 2 then hd (shape weight) else 1);
                  oshape = (if length (shape weight) = 2 then pre @ [out] else pre);
                  prods = concat (map (\<lambda>r. map (dot r) (rows_of out inp (vals weight)))
                                    (rows_of n inp (vals x)))
              in case bias of
                   None \<Rightarrow> Inr (Tensor (dtype_of x) oshape prods)
                 | Some b \<Rightarrow>
                     if length (shape x) = 2 \<or> length (shape x) = 3 \<or> length (shape b) = 1
                     then (if length (shape weight) = 2 \<and> bshape [n, out] (shape b) = Some [n, out]
                           then Inr (Tensor (dtype_of x) oshape
                                  (bc (+) [n, out] prods (lead1 2 (shape b)) (vals b)))
                           else Inl RuntimeError)
                     else (if bshape oshape (shape b) = Some oshape
                           then Inr (Tensor (dtype_of x) oshape
                                  (bc (+) oshape prods
                                      (lead1 (length oshape) (shape b)) (vals b)))
                           else Inl RuntimeError))"

definition silu :: "real \<Rightarrow> real" where
  "silu v = v / (1 + exp (- v))"

definition gelu_tanh :: "real \<Rightarrow> real" where
  "gelu_tanh v = 0.5 * v * (1 + tanh (sqrt (2 / pi) * (v + 0.044715 * v ^ 3)))"

definition F_silu :: "tensor \<Rightarrow> tensor" where
  "F_silu t = tmap silu t"

definition F_gelu :: "tensor \<Rightarrow> tensor" where
  "F_gelu t = tmap gelu_tanh t"

text \<open>
  \<open>F.layer_norm(h, h.shape[-1:])\<close>: every row of the last dimension is centred and
  divided by its standard deviation, with the default \<open>eps = 1e-5\<close> and no affine part.
\<close>

definition norm_row :: "real list \<Rightarrow> real list" where
  "norm_row r =
     (let n = real (length r);
          mu = sum_list r / n;
          var = sum_list (map (\<lambda>v. (v - mu) ^ 2) r) / n
      in map (\<lambda>v. (v - mu) / sqrt (var + 1 / 100000)) r)"

definition F_layer_norm :: "bool \<Rightarrow> tensor \<Rightarrow> error + tensor" where
  "F_layer_norm autocast input =
     (let t = autocast_to autocast Float32 input
      in if shape t = [] then Inl RuntimeError
         else Inr (Tensor (dtype_of t) (shape t)
                (concat (map norm_row
                   (rows_of (prod_list (butlast (shape t))) (last (shape t)) (vals t))))))"

text \<open>
  \<open>t.chunk(n, dim=-1)\<close>: pieces of \<open>ceil(k / n)\<close> columns, the last one shorter, as many
  as the \<open>k\<close> columns fill; \<open>n\<close> empty pieces when \<open>k = 0\<close>.
\<close>

definition chunk_sizes :: "nat \<Rightarrow> nat \<Rightarrow> (nat \<times> nat) list" where
  "chunk_sizes n k =
     (if k = 0 then replicate n (0, 0)
      else let sz = (k + n - 1) div n;
               num = (k + sz - 1) div sz
           in map (\<lambda>c. (c * sz, min sz (k - c * sz))) [0..<num])"

definition slice_last :: "tensor \<Rightarrow> nat \<Rightarrow> nat \<Rightarrow> tensor" where
  "slice_last t start len =
     Tensor (dtype_of t) (butlast (shape t) @ [len])
       (concat (map (\<lambda>r. take len (drop start r))
          (rows_of (prod_list (butlast (shape t))) (last (shape t)) (vals t))))"

definition chunk :: "nat \<Rightarrow> tensor \<Rightarrow> error + tensor list" where
  "chunk n t =
     (if shape t = [] \<or> n = 0 then Inl RuntimeError
      else Inr (map (\<lambda>(start, len). slice_last t start len) (chunk_sizes n (last (shape t)))))"

text \<open>\<open>t.unsqueeze(0)\<close>, and \<open>t.unsqueeze(1)\<close>, which is also \<open>t[:, None]\<close>.\<close>

definition unsqueeze0 :: "tensor \<Rightarrow> tensor" where
  "unsqueeze0 t = Tensor (dtype_of t) (1 # shape t) (vals t)"

definition unsqueeze1 :: "tensor \<Rightarrow> error + tensor" where
  "unsqueeze1 t =
     (case shape t of
        [] \<Rightarrow> Inl IndexError
      | d # ds \<Rightarrow> Inr (Tensor (dtype_of t) (d # 1 # ds) (vals t)))"

text \<open>\<open>torch.cat([a, b], dim=-1)\<close>: the rows of \<open>b\<close> appended to those of \<open>a\<close>.\<close>

definition cat_last :: "tensor \<Rightarrow> tensor \<Rightarrow> error + tensor" where
  "cat_last a b =
     (if shape a = [] \<or> shape b = [] \<or> butlast (shape a) \<noteq> butlast (shape b)
      then Inl RuntimeError
      else Inr (Tensor (promote (dtype_of a) (dtype_of b))
             (butlast (shape a) @ [last (shape a) + last (shape b)])
             (concat (map2 (@)
                (rows_of (prod_list (butlast (shape a))) (last (shape a)) (vals a))
                (rows_of (prod_list (butlast (shape b))) (last (shape b)) (vals b))))))"

text \<open>\<open>torch.arange(n, dtype=torch.float32)\<close>.\<close>

definition arange :: "nat \<Rightarrow> tensor" where
  "arange n = Tensor Float32 [n] (map real [0..<n])"

section \<open>The state dict of a checkpoint\<close>

type_synonym state_dict = "string \<rightharpoonup> tensor"

text \<open>The decimal digits of a block index, as an f-string writes them.\<close>

function str_nat :: "nat \<Rightarrow> string" where
  "str_nat n =
     (if n < 10 then [''0123456789'' ! n]
      else str_nat (n div 10) @ [''0123456789'' ! (n mod 10)])"
  by pat_completeness auto
termination
  by (relation "measure id") auto

declare str_nat.simps [simp del]

section \<open>generate\_assets.py: one transformer block\<close>

text \<open>
  \<open>h * (1 + scale.unsqueeze(1)) + shift.unsqueeze(1)\<close>, the modulation applied after each
  layer norm, in Python's order of evaluation.
\<close>

definition modulate :: "tensor \<Rightarrow> tensor \<Rightarrow> tensor \<Rightarrow> error + tensor" where
  "modulate h scale shift =
     rbind (unsqueeze1 scale) (\<lambda>sc.
     rbind (tmul h (tmap (\<lambda>v. 1 + v) sc)) (\<lambda>m.
     rbind (unsqueeze1 shift) (\<lambda>sh.
     tadd m sh)))"

text \<open>\<open>x + gate.unsqueeze(1) * h\<close>.\<close>

definition gated_add :: "tensor \<Rightarrow> tensor \<Rightarrow> tensor \<Rightarrow> error + tensor" where
  "gated_add x gate h =
     rbind (unsqueeze1 gate) (\<lambda>g.
     rbind (tmul g h) (\<lambda>gh.
     tadd x gh))"

definition apply_transformer_block ::
  "bool \<Rightarrow> tensor \<Rightarrow> tensor \<Rightarrow> tensor \<Rightarrow> nat \<Rightarrow> state_dict \<Rightarrow> device \<Rightarrow> dtype \<Rightarrow> error + tensor" where
  "apply_transformer_block autocast x context timestep_emb block_idx transformer_sd dev dt =
     (let prefix = ''model.diffusion_model.transformer_blocks.'' @ str_nat block_idx @ ''.'';
          get_weight = (\<lambda>name. map_option (to_device dev dt) (transformer_sd (prefix @ name)));
          img_mod_w = get_weight ''img_mod.1.weight'';
          img_mod_b = get_weight ''img_mod.1.bias''
      in case img_mod_w of
           None \<Rightarrow> Inr x
         | Some mod_w \<Rightarrow>
             rbind (F_linear autocast (F_silu timestep_emb) mod_w img_mod_b) (\<lambda>md.
             rbind (chunk 6 md) (\<lambda>cs.
               case cs of
                 [shift, scale, gate, shift2, scale2, gate2] \<Rightarrow>
                   rbind (F_layer_norm autocast x) (\<lambda>h.
                   rbind (modulate h scale shift) (\<lambda>h.
                   rbind (gated_add x gate h) (\<lambda>x1.
                   rbind (F_layer_norm autocast x1) (\<lambda>h.
                   rbind (modulate h scale2 shift2) (\<lambda>h.
                   let mlp_w1 = get_weight ''img_mlp.net.0.proj.weight'';
                       mlp_b1 = get_weight ''img_mlp.net.0.proj.bias'';
                       mlp_w2 = get_weight ''img_mlp.net.2.weight'';
                       mlp_b2 = get_weight ''img_mlp.net.2.bias''
                   in rbind
                        (case mlp_w1 of
                           None \<Rightarrow> Inr h
                         | Some w1 \<Rightarrow>
                             rbind (F_linear autocast h w1 mlp_b1) (\<lambda>h.
                               case mlp_w2 of
                                 None \<Rightarrow> Inl TypeError
                               | Some w2 \<Rightarrow> F_linear autocast (F_gelu h) w2 mlp_b2))
                        (\<lambda>h. gated_add x1 gate2 h))))))
               | _ \<Rightarrow> Inl ValueError)))"

section \<open>generate\_assets.py: the transformer\<close>

text \<open>Every tensor of the script is created on the GPU; \<open>latent.device\<close> is that device.\<close>

definition tensor_device :: "tensor \<Rightarrow> device" where
  "tensor_device t = ''cuda''"

text \<open>
  Patchify: the latent, padded to even height and width, is reshaped to
  \<open>[B, C, h/2, 2, w/2, 2]\<close>, permuted and flattened to \<open>[B, (h/2)*(w/2), C*4]\<close>.
\<close>

definition patchify :: "tensor \<Rightarrow> nat \<Rightarrow> nat \<Rightarrow> nat \<Rightarrow> nat \<Rightarrow> error + tensor" where
  "patchify latent batch ch h w =
     rbind (reshape latent [batch, ch, h div 2, 2, w div 2, 2]) (\<lambda>x.
     rbind (permute x [0, 2, 4, 1, 3, 5]) (\<lambda>x.
     reshape x [batch, (h div 2) * (w div 2), ch * 4]))"

definition input_projection ::
  "bool \<Rightarrow> tensor \<Rightarrow> state_dict \<Rightarrow> device \<Rightarrow> dtype \<Rightarrow> error + tensor" where
  "input_projection autocast x transformer_sd dev dt =
     (let prefix = ''model.diffusion_model.'';
          img_in_w = transformer_sd (prefix @ ''img_in.weight'');
          img_in_b = transformer_sd (prefix @ ''img_in.bias'')
      in case img_in_w of
           None \<Rightarrow> Inr x
         | Some w \<Rightarrow>
             F_linear autocast x (to_device dev dt w) (map_option (to_device dev dt) img_in_b))"

text \<open>
  The sinusoidal embedding of the timestep:
  \<open>emb = log(10000) / (half_dim - 1)\<close>, \<open>exp(arange(half_dim) * -emb)\<close>,
  \<open>timestep[:, None] * emb[None, :]\<close>, then sine and cosine side by side, cast to
  \<open>dtype\<close>.
\<close>

definition sinusoidal_embedding :: "tensor \<Rightarrow> dtype \<Rightarrow> error + tensor" where
  "sinusoidal_embedding timestep dt =
     (let half_dim = 128;
          emb = ln 10000 / real (half_dim - 1);
          emb = tmap exp (tmap (\<lambda>v. v * (- emb)) (arange half_dim))
      in rbind (unsqueeze1 timestep) (\<lambda>tcol.
         rbind (tmul tcol (unsqueeze0 emb)) (\<lambda>emb.
         rbind (cat_last (tmap sin emb) (tmap cos emb)) (\<lambda>emb.
         Inr (to_dtype dt emb)))))"

definition timestep_embedder ::
  "bool \<Rightarrow> tensor \<Rightarrow> state_dict \<Rightarrow> device \<Rightarrow> dtype \<Rightarrow> error + tensor" where
  "timestep_embedder autocast emb transformer_sd dev dt =
     (let prefix = ''model.diffusion_model.'';
          t_emb_w1 = transformer_sd (prefix @ ''time_text_embed.timestep_embedder.linear_1.weight'');
          t_emb_b1 = transformer_sd (prefix @ ''time_text_embed.timestep_embedder.linear_1.bias'');
          t_emb_w2 = transformer_sd (prefix @ ''time_text_embed.timestep_embedder.linear_2.weight'');
          t_emb_b2 = transformer_sd (prefix @ ''time_text_embed.timestep_embedder.linear_2.bias'')
      in case t_emb_w1 of
           None \<Rightarrow> Inr emb
         | Some w1 \<Rightarrow>
             (case t_emb_w2 of
                None \<Rightarrow> Inl AttributeError
              | Some w2 \<Rightarrow>
                  rbind (F_linear autocast emb (to_device dev dt w1)
                           (map_option (to_device dev dt) t_emb_b1))
                    (\<lambda>temb.
                  F_linear autocast (F_silu temb) (to_device dev dt w2)
                    (map_option (to_device dev dt) t_emb_b2))))"

text \<open>The loop \<open>for i in range(blocks_to_run)\<close> over the blocks.\<close>

fun run_blocks ::
  "bool \<Rightarrow> tensor \<Rightarrow> tensor \<Rightarrow> tensor \<Rightarrow> state_dict \<Rightarrow> device \<Rightarrow> dtype \<Rightarrow> nat list \<Rightarrow>
   error + tensor" where
  "run_blocks autocast x context temb transformer_sd dev dt [] = Inr x"
| "run_blocks autocast x context temb transformer_sd dev dt (i # rest) =
     rbind (apply_transformer_block autocast x context temb i transformer_sd dev dt) (\<lambda>x'.
     run_blocks autocast x' context temb transformer_sd dev dt rest)"

definition blocks_to_run :: "int \<Rightarrow> nat" where
  "blocks_to_run num_blocks = nat (min num_blocks 10)"

definition output_projection ::
  "bool \<Rightarrow> tensor \<Rightarrow> tensor \<Rightarrow> state_dict \<Rightarrow> device \<Rightarrow> dtype \<Rightarrow> error + tensor" where
  "output_projection autocast x temb transformer_sd dev dt =
     (let prefix = ''model.diffusion_model.'';
          norm_out_w = transformer_sd (prefix @ ''norm_out.linear.weight'');
          norm_out_b = transformer_sd (prefix @ ''norm_out.linear.bias'');
          proj_out_w = transformer_sd (prefix @ ''proj_out.weight'');
          proj_out_b = transformer_sd (prefix @ ''proj_out.bias'')
      in rbind
           (case norm_out_w of
              None \<Rightarrow> Inr x
            | Some w \<Rightarrow>
                rbind (F_linear autocast (F_silu temb) (to_device dev dt w)
                         (map_option (to_device dev dt) norm_out_b)) (\<lambda>md.
                rbind (chunk 2 md) (\<lambda>cs.
                  case cs of
                    [scale, shift] \<Rightarrow>
                      rbind (F_layer_norm autocast x) (\<lambda>x. modulate x scale shift)
                  | _ \<Rightarrow> Inl ValueError)))
           (\<lambda>x. case proj_out_w of
                   None \<Rightarrow> Inr x
                 | Some w \<Rightarrow>
                     F_linear autocast x (to_device dev dt w)
                       (map_option (to_device dev dt) proj_out_b)))"

text \<open>Unpatchify: back to \<open>[B, C, h, w]\<close>.\<close>

definition unpatchify :: "tensor \<Rightarrow> nat \<Rightarrow> nat \<Rightarrow> nat \<Rightarrow> nat \<Rightarrow> error + tensor" where
  "unpatchify x batch ch h w =
     rbind (reshape x [batch, h div 2, w div 2, ch, 2, 2]) (\<lambda>x.
     rbind (permute x [0, 3, 1, 4, 2, 5]) (\<lambda>x.
     reshape x [batch, ch, h, w]))"

definition run_transformer ::
  "bool \<Rightarrow> tensor \<Rightarrow> tensor \<Rightarrow> tensor \<Rightarrow> state_dict \<Rightarrow> int \<Rightarrow> error + tensor" where
  "run_transformer autocast latent timestep context transformer_sd num_blocks =
     (let dev = tensor_device latent; dt = BFloat16
      in case shape latent of
           [batch, ch, orig_h, orig_w] \<Rightarrow>
             let pad_h = (2 - orig_h mod 2) mod 2;
                 pad_w = (2 - orig_w mod 2) mod 2
             in rbind (if pad_h > 0 \<or> pad_w > 0 then F_pad latent pad_w pad_h else Inr latent)
                  (\<lambda>latent.
                case shape latent of
                  [b', c', h, w] \<Rightarrow>
                    rbind (patchify latent batch ch h w) (\<lambda>x.
                    rbind (input_projection autocast x transformer_sd dev dt) (\<lambda>x.
                    rbind (sinusoidal_embedding timestep dt) (\<lambda>emb.
                    rbind (timestep_embedder autocast emb transformer_sd dev dt) (\<lambda>temb.
                    rbind (run_blocks autocast x context temb transformer_sd dev dt
                             [0..<blocks_to_run num_blocks]) (\<lambda>x.
                    rbind (output_projection autocast x temb transformer_sd dev dt) (\<lambda>x.
                    rbind (unpatchify x batch ch h w) (\<lambda>x.
                    if pad_h > 0 \<or> pad_w > 0 then crop4 x orig_h orig_w else Inr x)))))))
                | _ \<Rightarrow> Inl ValueError)
         | _ \<Rightarrow> Inl ValueError)"

section \<open>generate\_assets.py: the VAE decoder\<close>

text \<open>
  \<open>F.interpolate(z, scale_factor=8, mode='bilinear', align_corners=False)\<close> on a tensor
  of rank four. The source coordinate of output index \<open>o\<close> is \<open>(o + 0.5) / 8 - 0.5\<close>,
  not below 0; the value is interpolated between the two rows and the two columns next to
  it. The output is 8 times as high and as wide; an input without channels, rows or columns
  is refused.
\<close>

definition src_index :: "nat \<Rightarrow> real" where
  "src_index o' = max 0 ((real o' + 1 / 2) / 8 - 1 / 2)"

definition interp_plane :: "nat \<Rightarrow> nat \<Rightarrow> real list \<Rightarrow> real list" where
  "interp_plane h w plane =
     concat (map (\<lambda>oy. map (\<lambda>ox.
        let sy = src_index oy; y0 = nat \<lfloor>sy\<rfloor>; y1 = (if y0 < h - 1 then y0 + 1 else y0);
            ly = sy - real y0;
            sx = src_index ox; x0 = nat \<lfloor>sx\<rfloor>; x1 = (if x0 < w - 1 then x0 + 1 else x0);
            lx = sx - real x0;
            p = (\<lambda>y x. plane ! (y * w + x))
        in (1 - ly) * ((1 - lx) * p y0 x0 + lx * p y0 x1)
           + ly * ((1 - lx) * p y1 x0 + lx * p y1 x1))
        [0..<8 * w]) [0..<8 * h])"

definition F_interpolate :: "tensor \<Rightarrow> error + tensor" where
  "F_interpolate z =
     (case shape z of
        [b, c, h, w] \<Rightarrow>
          if c = 0 \<or> h = 0 \<or> w = 0 then Inl RuntimeError
          else Inr (Tensor (dtype_of z) [b, c, 8 * h, 8 * w]
                 (concat (map (interp_plane h w) (rows_of (b * c) (h * w) (vals z)))))
      | _ \<Rightarrow> Inl ValueError)"

text \<open>\<open>img[:, :k]\<close>: the first \<open>k\<close> channels of a tensor of rank four.\<close>

definition take_channels :: "tensor \<Rightarrow> nat \<Rightarrow> error + tensor" where
  "take_channels t k =
     (case shape t of
        [b, c, h, w] \<Rightarrow>
          Inr (Tensor (dtype_of t) [b, min k c, h, w]
            (concat (map (take (min k c * (h * w))) (rows_of b (c * (h * w)) (vals t)))))
      | _ \<Rightarrow> Inl IndexError)"

text \<open>
  \<open>F.conv2d(input, weight, bias, padding=1)\<close> with stride 1: a weight of shape
  \<open>[out, in, kh, kw]\<close> over an input of shape \<open>[b, in, h, w]\<close> with one row and one
  column of zeros on every side; input, weight and bias have one dtype.
\<close>

definition F_conv2d :: "tensor \<Rightarrow> tensor \<Rightarrow> tensor \<Rightarrow> error + tensor" where
  "F_conv2d inp weight bias =
     (case (shape inp, shape weight) of
        ([b, c, h, w], [out, cin, kh, kw]) \<Rightarrow>
          if c \<noteq> cin \<or> shape bias \<noteq> [out] \<or> kh = 0 \<or> kw = 0 \<or> h + 2 < kh \<or> w + 2 < kw
             \<or> dtype_of weight \<noteq> dtype_of inp \<or> dtype_of bias \<noteq> dtype_of inp
          then Inl RuntimeError
          else let px = (\<lambda>n i y x.
                     if 1 \<le> y \<and> y \<le> h \<and> 1 \<le> x \<and> x \<le> w
                     then vals inp ! (((n * c + i) * h + (y - 1)) * w + (x - 1)) else 0);
                   wt = (\<lambda>o' i dy dx. vals weight ! (((o' * cin + i) * kh + dy) * kw + dx))
               in Inr (Tensor (dtype_of inp) [b, out, h + 3 - kh, w + 3 - kw]
                    (concat (map (\<lambda>n. concat (map (\<lambda>o'. concat (map (\<lambda>y. map (\<lambda>x.
                        vals bias ! o' +
                        sum_list (concat (map (\<lambda>i. concat (map (\<lambda>dy. map (\<lambda>dx.
                           px n i (y + dy) (x + dx) * wt o' i dy dx)
                           [0..<kw]) [0..<kh])) [0..<cin])))
                        [0..<w + 3 - kw]) [0..<h + 3 - kh])) [0..<out])) [0..<b])))
      | _ \<Rightarrow> Inl RuntimeError)"

definition starts_with :: "string \<Rightarrow> string \<Rightarrow> bool" where
  "starts_with k pre = (take (length pre) k = pre)"

definition decode_vae_simple :: "tensor \<Rightarrow> state_dict \<Rightarrow> error + tensor" where
  "decode_vae_simple latent vae_sd =
     (let z = tmap (\<lambda>v. v / (13025 / 100000)) latent;
          decoder_layers = (\<lambda>k. if starts_with k ''decoder.'' then vae_sd k else None)
      in case shape z of
           [batch, ch, h, w] \<Rightarrow>
             rbind (F_interpolate z) (\<lambda>img.
             let conv_out_key = ''decoder.conv_out.weight''
             in rbind
                  (case vae_sd conv_out_key of
                     Some wt0 \<Rightarrow>
                       (let wt = to_device (tensor_device z) (dtype_of z) wt0
                        in case vae_sd ''decoder.conv_out.bias'' of
                             None \<Rightarrow> Inl KeyError
                           | Some bs0 \<Rightarrow>
                               (let bs = to_device (tensor_device z) (dtype_of z) bs0
                                in if length (shape wt) < 2 then Inl IndexError
                                   else rbind (take_channels img (shape wt ! 1)) (\<lambda>img.
                                        F_conv2d img wt bs)))
                   | None \<Rightarrow> take_channels img 3)
                  (\<lambda>img.
                    let img = tmap (\<lambda>v. (v + 1) / 2) img
                    in Inr (tmap (\<lambda>v. min 1 (max 0 v)) img)))
         | _ \<Rightarrow> Inl ValueError)"

text \<open>
  \<open>latent_to_image\<close>: the first image of the batch, channels last, times 255 as bytes,
  and \<open>Image.fromarray\<close>, which takes an array of bytes with 2, 3 or 4 channels.
\<close>

record image =
  img_shape :: "nat list"
  img_bytes :: "nat list"

definition first_of_batch :: "tensor \<Rightarrow> error + tensor" where
  "first_of_batch t =
     (case shape t of
        [] \<Rightarrow> Inl IndexError
      | b # rest \<Rightarrow>
          if b = 0 then Inl IndexError
          else Inr (Tensor (dtype_of t) rest (take (prod_list rest) (vals t))))"

definition fromarray :: "nat list \<Rightarrow> nat list \<Rightarrow> error + image" where
  "fromarray s bs =
     (if length s = 3 \<and> s ! 2 \<in> {2, 3, 4} then Inr \<lparr>img_shape = s, img_bytes = bs\<rparr>
      else Inl TypeError)"

definition latent_to_image :: "tensor \<Rightarrow> state_dict \<Rightarrow> error + image" where
  "latent_to_image latent vae_sd =
     rbind (decode_vae_simple latent vae_sd) (\<lambda>img.
     rbind (first_of_batch img) (\<lambda>img.
     rbind (permute img [1, 2, 0]) (\<lambda>img.
     fromarray (shape img) (map (\<lambda>v. nat \<lfloor>v * 255\<rfloor> mod 256) (vals img)))))"

section \<open>generate\_assets.py: sampling\<close>

text \<open>
  The global random generator of torch. Its state is of an unknown type \<open>'g\<close>; seeding
  and drawing standard normal samples are parameters of the model. \<open>manual_seed\<close> accepts
  seeds from \<open>-2^63\<close> to \<open>2^64 - 1\<close> and maps a negative one to \<open>2^64 - 1 + seed\<close>.
\<close>

record 'g torch_rng =
  seed_gen :: "nat \<Rightarrow> 'g"
  normal_draw :: "'g \<Rightarrow> nat \<Rightarrow> real list \<times> 'g"

definition manual_seed :: "'g torch_rng \<Rightarrow> int \<Rightarrow> error + 'g" where
  "manual_seed R seed =
     (if - (2 ^ 63) \<le> seed \<and> seed \<le> 2 ^ 64 - 1
      then Inr (seed_gen R (nat (if seed < 0 then 2 ^ 64 - 1 + seed else seed)))
      else Inl RuntimeError)"

definition randn :: "'g torch_rng \<Rightarrow> 'g \<Rightarrow> int list \<Rightarrow> dtype \<Rightarrow> error + tensor \<times> 'g" where
  "randn R g dims dt =
     (if list_ex (\<lambda>d. d < 0) dims then Inl RuntimeError
      else let s = map nat dims;
               (xs, g') = normal_draw R g (prod_list s)
           in Inr (Tensor dt s xs, g'))"

definition zeros :: "nat list \<Rightarrow> dtype \<Rightarrow> tensor" where
  "zeros s dt = Tensor dt s (replicate (prod_list s) 0)"

definition randn_like :: "'g torch_rng \<Rightarrow> 'g \<Rightarrow> tensor \<Rightarrow> tensor \<times> 'g" where
  "randn_like R g t =
     (let (xs, g') = normal_draw R g (prod_list (shape t))
      in (Tensor (dtype_of t) (shape t) xs, g'))"

text \<open>\<open>torch.linspace(start, end, n)\<close> as the list of its values.\<close>

definition linspace :: "real \<Rightarrow> real \<Rightarrow> int \<Rightarrow> error + real list" where
  "linspace a b n =
     (if n < 0 then Inl RuntimeError
      else if n = 1 then Inr [a]
      else Inr (map (\<lambda>i. a + real i * ((b - a) / real (nat n - 1))) [0..<nat n]))"

text \<open>
  The standalone sampler \<open>euler_sample\<close>: \<open>dt = sigma_next - sigma\<close> and
  \<open>x = x + v * (-dt)\<close> for every index of \<open>range(len(sigmas) - 1)\<close>.
\<close>

fun euler_sample_loop ::
  "(tensor \<Rightarrow> real \<Rightarrow> 'c \<Rightarrow> 'm \<Rightarrow> error + tensor) \<Rightarrow> tensor \<Rightarrow> real list \<Rightarrow> 'c \<Rightarrow> 'm \<Rightarrow>
   nat list \<Rightarrow> error + tensor" where
  "euler_sample_loop model_fn x sigmas context attention_mask [] = Inr x"
| "euler_sample_loop model_fn x sigmas context attention_mask (i # rest) =
     (let sigma = sigmas ! i;
          sigma_next = sigmas ! (i + 1);
          dt = sigma_next - sigma
      in rbind (model_fn x sigma context attention_mask) (\<lambda>v.
         rbind (tadd x (tmap (\<lambda>e. e * (- dt)) v)) (\<lambda>x'.
         euler_sample_loop model_fn x' sigmas context attention_mask rest)))"

definition euler_sample ::
  "(tensor \<Rightarrow> real \<Rightarrow> 'c \<Rightarrow> 'm \<Rightarrow> error + tensor) \<Rightarrow> tensor \<Rightarrow> real list \<Rightarrow> 'c \<Rightarrow> 'm \<Rightarrow>
   real \<Rightarrow> int \<Rightarrow> error + tensor" where
  "euler_sample model_fn x sigmas context attention_mask cfg_scale steps =
     euler_sample_loop model_fn x sigmas context attention_mask [0..<length sigmas - 1]"

text \<open>
  The sampling loop written inside \<open>generate_with_ai\<close>, over the function that predicts
  the velocity from the latent and \<open>sigma\<close>: \<open>dt = sigma - sigma_next\<close> and
  \<open>latent = latent - v * dt\<close>.
\<close>

fun inline_euler_loop ::
  "(tensor \<Rightarrow> real \<Rightarrow> error + tensor) \<Rightarrow> tensor \<Rightarrow> real list \<Rightarrow> nat list \<Rightarrow> error + tensor" where
  "inline_euler_loop model latent sigmas [] = Inr latent"
| "inline_euler_loop model latent sigmas (i # rest) =
     (let sigma = sigmas ! i;
          sigma_next = sigmas ! (i + 1)
      in rbind (model latent sigma) (\<lambda>v.
         let dt = sigma - sigma_next
         in rbind (tsub latent (tmap (\<lambda>e. e * dt) v)) (\<lambda>latent'.
            inline_euler_loop model latent' sigmas rest)))"

definition LATENT_CHANNELS :: int where
  "LATENT_CHANNELS = 16"

definition VAE_SCALE_FACTOR :: int where
  "VAE_SCALE_FACTOR = 8"

text \<open>
  The context of \<open>generate_with_ai\<close>: zeros of shape \<open>[1, 77, 3584]\<close>, replaced by normal
  samples drawn after \<open>torch.manual_seed(hash(prompt) % 2**32)\<close>, times 0.1. The hash of
  Python strings is a parameter.
\<close>

definition prompt_context :: "'g torch_rng \<Rightarrow> (string \<Rightarrow> int) \<Rightarrow> string \<Rightarrow> error + tensor \<times> 'g" where
  "prompt_context R py_hash prompt =
     (let context = zeros [1, 77, 3584] BFloat16;
          prompt_hash = py_hash prompt
      in rbind (manual_seed R (prompt_hash mod 2 ^ 32)) (\<lambda>g.
         let (context, g') = randn_like R g context
         in Inr (tmap (\<lambda>v. v * (1 / 10)) context, g')))"

text \<open>
  The velocity of one step: \<open>run_transformer(latent, sigma.unsqueeze(0) * 1000, ...)\<close>,
  called inside autocast.
\<close>

definition velocity :: "tensor \<Rightarrow> state_dict \<Rightarrow> tensor \<Rightarrow> real \<Rightarrow> error + tensor" where
  "velocity context transformer_sd latent sigma =
     run_transformer True latent (Tensor Float32 [1] [sigma * 1000]) context transformer_sd 60"

definition generate_with_ai ::
  "'g torch_rng \<Rightarrow> (string \<Rightarrow> int) \<Rightarrow> 'g \<Rightarrow> string \<Rightarrow> int \<Rightarrow> int \<Rightarrow> state_dict \<Rightarrow> state_dict \<Rightarrow>
   state_dict option \<Rightarrow> int \<Rightarrow> real \<Rightarrow> int option \<Rightarrow> error + image \<times> 'g" where
  "generate_with_ai R py_hash g prompt width height transformer_sd vae_sd text_encoder_sd
     steps cfg_scale seed =
     rbind (case seed of None \<Rightarrow> Inr g | Some s \<Rightarrow> manual_seed R s) (\<lambda>g.
     let latent_h = height div VAE_SCALE_FACTOR;
         latent_w = width div VAE_SCALE_FACTOR
     in rbind (randn R g [1, LATENT_CHANNELS, latent_h, latent_w] BFloat16) (\<lambda>(latent, g).
        rbind (linspace 1 0 (steps + 1)) (\<lambda>sigmas.
        rbind (prompt_context R py_hash prompt) (\<lambda>(context, g).
        rbind (case seed of None \<Rightarrow> Inr g | Some s \<Rightarrow> manual_seed R s) (\<lambda>g.
        rbind (inline_euler_loop (velocity context transformer_sd) latent sigmas
                 [0..<length sigmas - 1]) (\<lambda>latent.
        rbind (latent_to_image latent vae_sd) (\<lambda>image.
        Inr (image, g))))))))"

section \<open>generate\_assets\_comfyui.py\<close>

text \<open>
  The script talks to a local HTTP server, reads the clock and writes one file. What the
  server answers, what the clock shows and whether the file system fails are given by an
  environment; the file system is a map from paths to the bytes of the files.

  The JSON of the history request is a dict from prompt ids to entries; an entry may have
  \<open>outputs\<close>, a dict (in the order of the reply) from node ids to node outputs; a node
  output may have \<open>images\<close>, a list of dicts of strings.
\<close>

type_synonym bytes = "nat list"

type_synonym file_system = "string \<rightharpoonup> bytes"

type_synonym image_info = "string \<rightharpoonup> string"

type_synonym node_output = "image_info list option"

type_synonym outputs = "(string \<times> node_output) list"

type_synonym history = "string \<rightharpoonup> outputs option"

record asset_config =
  cfg_filename :: string
  cfg_width :: int
  cfg_height :: int
  cfg_prompt :: string

text \<open>
  The workflow: of the template, the four inputs the script sets (width and height of
  node 5, text of node 4, seed of node 6); the rest of the template is constant.
\<close>

record workflow =
  wf_width :: int
  wf_height :: int
  wf_text :: string
  wf_seed :: int

text \<open>
  Each entry of \<open>polls\<close> is one turn of the loop of \<open>wait_for_completion\<close>: what
  \<open>time.time()\<close> shows at the test of the loop, and what the history request answers in
  that turn. \<open>write_error\<close> is the exception of \<open>f.write\<close> with the number of bytes that
  reached the file before it.
\<close>

record comfy_env =
  queue_reply :: "workflow \<Rightarrow> error + string option"
  start_time :: real
  polls :: "(real \<times> (error + history)) list"
  view_reply :: "string \<Rightarrow> string \<Rightarrow> string \<Rightarrow> error + bytes"
  join_path :: "string \<Rightarrow> string \<Rightarrow> string"
  mkdir_error :: "error option"
  open_error :: "error option"
  write_error :: "(error \<times> nat) option"

text \<open>The output directory, a Windows path, written here with forward slashes.\<close>

definition OUTPUT_DIR :: string where
  "OUTPUT_DIR = ''C:/Users/PC/Desktop/moneygrinder/mobile/PART_2_HEALTH_APPS/03_HABIT_BASED_HEALTH/habit-health/shared/src/androidMain/res/drawable''"

definition get_workflow_template :: workflow where
  "get_workflow_template =
     \<lparr>wf_width = 512, wf_height = 512, wf_text = ''prompt here'', wf_seed = 0\<rparr>"

definition queue_prompt :: "comfy_env \<Rightarrow> workflow \<Rightarrow> error + string option" where
  "queue_prompt env prompt_workflow = queue_reply env prompt_workflow"

definition get_image :: "comfy_env \<Rightarrow> string \<Rightarrow> string \<Rightarrow> string \<Rightarrow> error + bytes" where
  "get_image env fname subfolder folder_type = view_reply env fname subfolder folder_type"

text \<open>The images of the first node output that has the key \<open>images\<close>.\<close>

fun first_images :: "outputs \<Rightarrow> image_info list option" where
  "first_images [] = None"
| "first_images ((node_id, node_output) # rest) =
     (case node_output of Some imgs \<Rightarrow> Some imgs | None \<Rightarrow> first_images rest)"

definition find_images :: "string option \<Rightarrow> history \<Rightarrow> image_info list option" where
  "find_images prompt_id hist =
     (case prompt_id of
        None \<Rightarrow> None
      | Some pid \<Rightarrow>
          (case hist pid of
             None \<Rightarrow> None
           | Some entry \<Rightarrow>
               (let outs = (case entry of None \<Rightarrow> [] | Some os \<Rightarrow> os)
                in if outs \<noteq> [] then first_images outs else None)))"

text \<open>
  The loop of \<open>wait_for_completion\<close>. \<open>None\<close> is a loop that has not returned when the
  environment's turns end; \<open>Some (Inr None)\<close> is the \<open>return None\<close> of the timeout.
\<close>

fun wait_loop ::
  "real \<Rightarrow> real \<Rightarrow> string option \<Rightarrow> (real \<times> (error + history)) list \<Rightarrow>
   (error + image_info list option) option" where
  "wait_loop start timeout prompt_id [] = None"
| "wait_loop start timeout prompt_id ((now, reply) # rest) =
     (if now - start < timeout
      then (case reply of
              Inl e \<Rightarrow> Some (Inl e)
            | Inr hist \<Rightarrow>
                (case find_images prompt_id hist of
                   Some imgs \<Rightarrow> Some (Inr (Some imgs))
                 | None \<Rightarrow> wait_loop start timeout prompt_id rest))
      else Some (Inr None))"

definition wait_for_completion ::
  "comfy_env \<Rightarrow> string option \<Rightarrow> real \<Rightarrow> (error + image_info list option) option" where
  "wait_for_completion env prompt_id timeout =
     wait_loop (start_time env) timeout prompt_id (polls env)"

text \<open>The workflow that \<open>generate_asset_comfyui\<close> fills in before the \<open>try\<close>.\<close>

definition build_workflow ::
  "(string \<Rightarrow> int) \<Rightarrow> string \<Rightarrow> asset_config \<Rightarrow> int option \<Rightarrow> workflow" where
  "build_workflow py_hash asset_name config seed =
     (let flow = get_workflow_template;
          flow = flow\<lparr>wf_width := cfg_width config\<rparr>;
          flow = flow\<lparr>wf_height := cfg_height config\<rparr>;
          flow = flow\<lparr>wf_text := cfg_prompt config\<rparr>;
          seed = (case seed of None \<Rightarrow> py_hash asset_name mod 2 ^ 32 | Some s \<Rightarrow> s)
      in flow\<lparr>wf_seed := seed\<rparr>)"

text \<open>
  The first half of the \<open>try\<close> block: queue the prompt, wait, and download the first image.
  \<open>Inr None\<close> is the branch without images.
\<close>

definition fetch_image ::
  "comfy_env \<Rightarrow> workflow \<Rightarrow> (error + bytes option) option" where
  "fetch_image env flow =
     (case queue_prompt env flow of
        Inl e \<Rightarrow> Some (Inl e)
      | Inr prompt_id \<Rightarrow>
          (case wait_for_completion env prompt_id 300 of
             None \<Rightarrow> None
           | Some (Inl e) \<Rightarrow> Some (Inl e)
           | Some (Inr images) \<Rightarrow>
               (case images of
                  Some (img_info # others) \<Rightarrow>
                    (case img_info ''filename'' of
                       None \<Rightarrow> Some (Inl KeyError)
                     | Some fname \<Rightarrow>
                         (case img_info ''type'' of
                            None \<Rightarrow> Some (Inl KeyError)
                          | Some folder_type \<Rightarrow>
                              (case get_image env fname
                                      (case img_info ''subfolder'' of None \<Rightarrow> [] | Some sf \<Rightarrow> sf)
                                      folder_type of
                                 Inl e \<Rightarrow> Some (Inl e)
                               | Inr img_data \<Rightarrow> Some (Inr (Some img_data)))))
                | _ \<Rightarrow> Some (Inr None))))"

text \<open>
  \<open>generate_asset_comfyui\<close>: after the download, the second half of the \<open>try\<close> block
  creates the directory, opens the file for writing (which empties it) and writes the
  bytes. Every exception is caught and gives \<open>False\<close>.
\<close>

definition generate_asset_comfyui ::
  "(string \<Rightarrow> int) \<Rightarrow> comfy_env \<Rightarrow> file_system \<Rightarrow> string \<Rightarrow> asset_config \<Rightarrow> int option \<Rightarrow>
   (bool \<times> file_system) option" where
  "generate_asset_comfyui py_hash env fs asset_name config seed =
     (let flow = build_workflow py_hash asset_name config seed
      in case fetch_image env flow of
           None \<Rightarrow> None
         | Some (Inl e) \<Rightarrow> Some (False, fs)
         | Some (Inr None) \<Rightarrow> Some (False, fs)
         | Some (Inr (Some img_data)) \<Rightarrow>
             (let output_path = join_path env OUTPUT_DIR (cfg_filename config)
              in case mkdir_error env of
                   Some e \<Rightarrow> Some (False, fs)
                 | None \<Rightarrow>
                     (case open_error env of
                        Some e \<Rightarrow> Some (False, fs)
                      | None \<Rightarrow>
                          (case write_error env of
                             Some (e, k) \<Rightarrow> Some (False, fs(output_path \<mapsto> take k img_data))
                           | None \<Rightarrow> Some (True, fs(output_path \<mapsto> img_data))))))"

section \<open>Specifications and inputs of the theorems\<close>

text \<open>
  The weights of a state dict fit a latent with \<open>c\<close> channels, a block width \<open>d\<close> and a
  timestep embedding of width \<open>e\<close> when every stage that is present has the shapes its
  matrix products need. A bias, if there is one, has the width of its weight's output. An
  absent projection leaves the width as it is; an absent timestep embedder leaves the
  256 columns of the sinusoidal embedding.
\<close>

definition bias_fits :: "state_dict \<Rightarrow> string \<Rightarrow> nat \<Rightarrow> bool" where
  "bias_fits sd bkey out = (case sd bkey of None \<Rightarrow> True | Some b \<Rightarrow> shape b = [out])"

definition proj_ok :: "state_dict \<Rightarrow> string \<Rightarrow> string \<Rightarrow> nat \<Rightarrow> nat \<Rightarrow> bool" where
  "proj_ok sd wkey bkey inp out =
     (case sd wkey of
        None \<Rightarrow> inp = out
      | Some w \<Rightarrow> shape w = [out, inp] \<and> bias_fits sd bkey out)"

definition two_layers_fit ::
  "state_dict \<Rightarrow> string \<Rightarrow> string \<Rightarrow> string \<Rightarrow> string \<Rightarrow> nat \<Rightarrow> nat \<Rightarrow> bool" where
  "two_layers_fit sd w1key b1key w2key b2key inp out =
     (case sd w1key of
        None \<Rightarrow> inp = out
      | Some w1 \<Rightarrow>
          length (shape w1) = 2 \<and> shape w1 ! 1 = inp \<and> bias_fits sd b1key (shape w1 ! 0) \<and>
          (case sd w2key of
             None \<Rightarrow> False
           | Some w2 \<Rightarrow> shape w2 = [out, shape w1 ! 0] \<and> bias_fits sd b2key out))"

definition embedder_fits :: "state_dict \<Rightarrow> nat \<Rightarrow> bool" where
  "embedder_fits sd e =
     two_layers_fit sd
       ''model.diffusion_model.time_text_embed.timestep_embedder.linear_1.weight''
       ''model.diffusion_model.time_text_embed.timestep_embedder.linear_1.bias''
       ''model.diffusion_model.time_text_embed.timestep_embedder.linear_2.weight''
       ''model.diffusion_model.time_text_embed.timestep_embedder.linear_2.bias'' 256 e"

definition block_fits :: "state_dict \<Rightarrow> nat \<Rightarrow> nat \<Rightarrow> nat \<Rightarrow> bool" where
  "block_fits sd d e i =
     (let prefix = ''model.diffusion_model.transformer_blocks.'' @ str_nat i @ ''.''
      in case sd (prefix @ ''img_mod.1.weight'') of
           None \<Rightarrow> True
         | Some w \<Rightarrow>
             shape w = [6 * d, e] \<and> bias_fits sd (prefix @ ''img_mod.1.bias'') (6 * d) \<and>
             two_layers_fit sd (prefix @ ''img_mlp.net.0.proj.weight'')
               (prefix @ ''img_mlp.net.0.proj.bias'') (prefix @ ''img_mlp.net.2.weight'')
               (prefix @ ''img_mlp.net.2.bias'') d d)"

definition norm_out_fits :: "state_dict \<Rightarrow> nat \<Rightarrow> nat \<Rightarrow> bool" where
  "norm_out_fits sd d e =
     (case sd ''model.diffusion_model.norm_out.linear.weight'' of
        None \<Rightarrow> True
      | Some w \<Rightarrow>
          shape w = [2 * d, e] \<and> bias_fits sd ''model.diffusion_model.norm_out.linear.bias'' (2 * d))"

definition weights_fit :: "state_dict \<Rightarrow> nat \<Rightarrow> nat \<Rightarrow> nat \<Rightarrow> bool" where
  "weights_fit sd c d e =
     (proj_ok sd ''model.diffusion_model.img_in.weight'' ''model.diffusion_model.img_in.bias''
        (c * 4) d \<and>
      embedder_fits sd e \<and>
      list_all (block_fits sd d e) [0..<10] \<and>
      norm_out_fits sd d e \<and>
      proj_ok sd ''model.diffusion_model.proj_out.weight'' ''model.diffusion_model.proj_out.bias''
        d (c * 4))"

text \<open>
  The dtype of the latent fits when the matrix products accept it: outside autocast it is
  the bfloat16 of the weights, inside autocast anything that autocast casts.
\<close>

definition dtype_fits :: "bool \<Rightarrow> dtype \<Rightarrow> bool" where
  "dtype_fits autocast d = (if autocast then d \<noteq> Float64 else d = BFloat16)"

text \<open>
  What the specification assumes of the state dict: an input projection that is present
  maps from \<open>c * 4\<close>, and an output projection that is present maps back to \<open>c * 4\<close>.
\<close>

definition projections_consistent :: "state_dict \<Rightarrow> nat \<Rightarrow> bool" where
  "projections_consistent sd c =
     ((case sd ''model.diffusion_model.img_in.weight'' of
         None \<Rightarrow> True
       | Some w \<Rightarrow> length (shape w) = 2 \<and> shape w ! 1 = c * 4) \<and>
      (case sd ''model.diffusion_model.proj_out.weight'' of
         None \<Rightarrow> True
       | Some w \<Rightarrow> length (shape w) = 2 \<and> shape w ! 0 = c * 4))"

text \<open>
  Two state dicts for \<open>decode_vae_simple\<close>: one with a decoder weight that is not
  \<open>conv_out\<close>, and one whose \<open>conv_out\<close> is a 3 by 3 convolution of one channel that copies
  its input.
\<close>

definition conv_in_only_sd :: state_dict where
  "conv_in_only_sd = [''decoder.conv_in.weight'' \<mapsto> Tensor BFloat16 [1] [5]]"

definition conv_out_sd :: state_dict where
  "conv_out_sd =
     [''decoder.conv_out.weight'' \<mapsto> Tensor Float32 [1, 1, 3, 3] [0, 0, 0, 0, 1, 0, 0, 0, 0],
      ''decoder.conv_out.bias'' \<mapsto> Tensor Float32 [1] [0]]"

text \<open>
  The sampler as the specification words it: \<open>steps + 1\<close> equally spaced values from 1
  down to 0, and for each \<open>i\<close> from 0 to \<open>steps - 1\<close> the update
  \<open>latent <- latent - v * (sigma_i - sigma_{i+1})\<close> with \<open>v\<close> the velocity at \<open>sigma_i\<close>.
\<close>

definition sigma_schedule :: "nat \<Rightarrow> nat \<Rightarrow> real" where
  "sigma_schedule steps i = 1 - real i / real steps"

fun euler_flow_matching ::
  "(tensor \<Rightarrow> real \<Rightarrow> error + tensor) \<Rightarrow> nat \<Rightarrow> nat \<Rightarrow> tensor \<Rightarrow> error + tensor" where
  "euler_flow_matching model steps 0 latent = Inr latent"
| "euler_flow_matching model steps (Suc i) latent =
     rbind (euler_flow_matching model steps i latent) (\<lambda>latent.
     rbind (model latent (sigma_schedule steps i)) (\<lambda>v.
     tsub latent (tmap (\<lambda>e. e * (sigma_schedule steps i - sigma_schedule steps (Suc i))) v)))"

text \<open>
  A random generator for closed examples: its state counts the samples drawn, and every
  sample is 0.
\<close>

definition zero_rng :: "nat torch_rng" where
  "zero_rng = \<lparr>seed_gen = (\<lambda>n. n), normal_draw = (\<lambda>g n. (replicate n 0, g + n))\<rparr>"

text \<open>
  A model function with the sign of its velocity reversed, as a model of the loop of
  \<open>generate_with_ai\<close>.
\<close>

definition negated ::
  "(tensor \<Rightarrow> real \<Rightarrow> 'c \<Rightarrow> 'm \<Rightarrow> error + tensor) \<Rightarrow> 'c \<Rightarrow> 'm \<Rightarrow> tensor \<Rightarrow> real \<Rightarrow> error + tensor" where
  "negated model_fn context attention_mask x sigma =
     rbind (model_fn x sigma context attention_mask) (\<lambda>v. Inr (tmap uminus v))"

text \<open>
  The timestep embedding as the specification words it: the frequencies
  \<open>f_k = exp(-k * ln(10000) / (half_dim - 1))\<close> for \<open>k < 128\<close>, and for a timestep \<open>t\<close>
  the sines of \<open>t * f_k\<close> followed by the cosines.
\<close>

definition spec_frequency :: "nat \<Rightarrow> real" where
  "spec_frequency k = exp (- real k * ln 10000 / (128 - 1))"

definition spec_timestep_embedding :: "real \<Rightarrow> real list" where
  "spec_timestep_embedding t =
     map (\<lambda>k. sin (t * spec_frequency k)) [0..<128] @
     map (\<lambda>k. cos (t * spec_frequency k)) [0..<128]"

text \<open>
  Environments for \<open>generate_asset_comfyui\<close>. In the first the server answers the second
  history request with one image and the download gives three bytes. In the second the
  history stays empty and the third reading of the clock is past the timeout. The third
  is the first with a write that fails before any byte reaches the file.
\<close>

definition icon_config :: asset_config where
  "icon_config =
     \<lparr>cfg_filename = ''icon.png'', cfg_width = 64, cfg_height = 32, cfg_prompt = ''an icon''\<rparr>"

definition icon_info :: image_info where
  "icon_info = [''filename'' \<mapsto> ''DailyWell_00001_.png'', ''subfolder'' \<mapsto> [],
                ''type'' \<mapsto> ''output'']"

definition serving_env :: comfy_env where
  "serving_env =
     \<lparr>queue_reply = (\<lambda>flow. Inr (Some ''p1'')),
      start_time = 0,
      polls = [(1, Inr Map.empty), (2, Inr [''p1'' \<mapsto> Some [(''8'', Some [icon_info])]])],
      view_reply = (\<lambda>fname subfolder folder_type. Inr [137, 80, 78]),
      join_path = (\<lambda>dir fname. dir @ ''/'' @ fname),
      mkdir_error = None,
      open_error = None,
      write_error = None\<rparr>"

definition silent_env :: comfy_env where
  "silent_env = serving_env\<lparr>polls := [(1, Inr Map.empty), (150, Inr Map.empty), (301, Inr Map.empty)]\<rparr>"

definition full_disk_env :: comfy_env where
  "full_disk_env = serving_env\<lparr>write_error := Some (OSError, 0)\<rparr>"

text \<open>
  Two state dicts for \<open>run_transformer\<close>. The first has a timestep embedder of width 1
  and the modulation of block 0, whose bias holds shift, scale and gate of both halves of
  the block: every weight fits a latent of one channel. The second has only an input
  projection from 4 columns to 2.
\<close>

definition one_block_sd :: state_dict where
  "one_block_sd =
     [''model.diffusion_model.time_text_embed.timestep_embedder.linear_1.weight'' \<mapsto>
        Tensor BFloat16 [1, 256] (replicate 256 0),
      ''model.diffusion_model.time_text_embed.timestep_embedder.linear_2.weight'' \<mapsto>
        Tensor BFloat16 [1, 1] [0],
      ''model.diffusion_model.transformer_blocks.0.img_mod.1.weight'' \<mapsto>
        Tensor BFloat16 [24, 1] (replicate 24 0),
      ''model.diffusion_model.transformer_blocks.0.img_mod.1.bias'' \<mapsto>
        Tensor BFloat16 [24]
          [1, 1, 1, 1, 0, 0, 0, 0, 1, 1, 1, 1, 2, 2, 2, 2, 0, 0, 0, 0, 1, 1, 1, 1]]"

definition img_in_only_sd :: state_dict where
  "img_in_only_sd =
     [''model.diffusion_model.img_in.weight'' \<mapsto>
        Tensor BFloat16 [2, 4] [1, 0, 0, 0, 0, 1, 0, 0]]"

section \<open>Basic facts about the model\<close>

lemma rbind_Inr: "rbind m f = Inr y \<longleftrightarrow> (\<exists>v. m = Inr v \<and> f v = Inr y)"
  by (cases m) (auto simp: rbind_def)

lemma rbind_simps:
  "rbind (Inl e) f = Inl e"
  "rbind (Inr v) f = f v"
  by (simp_all add: rbind_def)

lemma rbind_assoc: "rbind (rbind m f) g = rbind m (\<lambda>x. rbind (f x) g)"
  by (cases m) (simp_all add: rbind_def)

lemma shape_tmap [simp]: "shape (tmap f t) = shape t"
  by (simp add: tmap_def)

lemma vals_tmap [simp]: "vals (tmap f t) = map f (vals t)"
  by (simp add: tmap_def)

lemma dtype_tmap [simp]: "dtype_of (tmap f t) = dtype_of t"
  by (simp add: tmap_def)

lemma shape_to_device [simp]: "shape (to_device dev dt t) = shape t"
  by (simp add: to_device_def)

lemma dtype_to_device [simp]: "dtype_of (to_device dev dt t) = dt"
  by (simp add: to_device_def)

lemma reshape_shape: "reshape t s = Inr y \<Longrightarrow> shape y = s"
  by (auto simp: reshape_def split: if_splits)

lemma unpatchify_shape: "unpatchify x b c h w = Inr y \<Longrightarrow> shape y = [b, c, h, w]"
  by (auto simp: unpatchify_def rbind_Inr reshape_shape)

lemma F_pad_shape4:
  "F_pad t pw ph = Inr y \<Longrightarrow> shape t = [b, c, h, w] \<Longrightarrow> shape y = [b, c, h + ph, w + pw]"
  by (auto simp: F_pad_def split: if_splits)

lemma crop4_shape:
  "crop4 t oh ow = Inr y \<Longrightarrow> shape t = [b, c, h, w] \<Longrightarrow> shape y = [b, c, min oh h, min ow w]"
  by (auto simp: crop4_def)

lemma blocks_to_run_capped:
  "blocks_to_run 60 = blocks_to_run 10"
  "blocks_to_run (max n 10) = blocks_to_run 10"
  by (simp_all add: blocks_to_run_def)

section \<open>Shapes through the stages of the transformer\<close>

lemma pad_amount: "(2 - (h::nat) mod 2) mod 2 = (if even h then 0 else 1)"
  by (cases "even h") (simp_all add: odd_iff_mod_2_eq_one)

lemma even_padded: "even ((h::nat) + (2 - h mod 2) mod 2)"
  by (simp add: pad_amount)

lemma patchify_ok:
  assumes "shape l = [b, c, h, w]" "even h" "even w"
  shows "\<exists>x. patchify l b c h w = Inr x \<and> shape x = [b, (h div 2) * (w div 2), c * 4]
           \<and> dtype_of x = dtype_of l"
  using assms
  by (auto simp: patchify_def reshape_def permute_def rbind_simps Let_def elim!: evenE)

lemma F_pad_ok4:
  "shape t = [b, c, h, w] \<Longrightarrow>
   \<exists>y. F_pad t pw ph = Inr y \<and> shape y = [b, c, h + ph, w + pw] \<and> dtype_of y = dtype_of t"
  by (simp add: F_pad_def)

lemma tbin_ok:
  "bshape (shape a) (shape b) = Some s \<Longrightarrow>
   \<exists>y. tbin f a b = Inr y \<and> shape y = s \<and> dtype_of y = result_dtype a b"
  by (simp add: tbin_def)

lemma cat_last_ok:
  "shape a = [n, ka] \<Longrightarrow> shape b = [n, kb] \<Longrightarrow>
   \<exists>y. cat_last a b = Inr y \<and> shape y = [n, ka + kb]"
  by (simp add: cat_last_def)

lemma sinusoidal_embedding_ok:
  assumes "shape timestep = [T]"
  shows "\<exists>e. sinusoidal_embedding timestep dt = Inr e \<and> shape e = [T, 256] \<and> dtype_of e = dt"
proof -
  define freqs where
    "freqs = tmap exp (tmap (\<lambda>v. v * (- (ln 10000 / real (128 - 1)))) (arange 128))"
  have u: "unsqueeze1 timestep = Inr (Tensor (dtype_of timestep) [T, 1] (vals timestep))"
    using assms by (simp add: unsqueeze1_def)
  have sf: "shape (unsqueeze0 freqs) = [1, 128]"
    by (simp add: unsqueeze0_def freqs_def arange_def)
  obtain args where args:
    "tmul (Tensor (dtype_of timestep) [T, 1] (vals timestep)) (unsqueeze0 freqs) = Inr args"
    "shape args = [T, 128]"
  proof -
    have "bshape (shape (Tensor (dtype_of timestep) [T, 1] (vals timestep)))
            (shape (unsqueeze0 freqs)) = Some [T, 128]"
      unfolding sf by (simp add: bshape_def)
    from tbin_ok[OF this, of "(*)"] show ?thesis
      using that unfolding tmul_def by blast
  qed
  obtain e where e: "cat_last (tmap sin args) (tmap cos args) = Inr e" "shape e = [T, 128 + 128]"
    using cat_last_ok[of "tmap sin args" T 128 "tmap cos args" 128] args(2) by auto
  show ?thesis
    unfolding sinusoidal_embedding_def Let_def freqs_def[symmetric]
    by (simp only: u args e rbind_simps) (simp add: e(2) to_dtype_def)
qed

lemma timestep_embedder_missing_second:
  assumes "sd ''model.diffusion_model.time_text_embed.timestep_embedder.linear_1.weight'' = Some w1"
    and "sd ''model.diffusion_model.time_text_embed.timestep_embedder.linear_2.weight'' = None"
  shows "timestep_embedder ac emb sd dev dt = Inl AttributeError"
  using assms by (simp add: timestep_embedder_def)

lemma timestep_embedder_absent:
  "sd ''model.diffusion_model.time_text_embed.timestep_embedder.linear_1.weight'' = None
   \<Longrightarrow> timestep_embedder ac emb sd dev dt = Inr emb"
  by (simp add: timestep_embedder_def)

lemma input_projection_absent:
  "sd ''model.diffusion_model.img_in.weight'' = None \<Longrightarrow> input_projection ac x sd dev dt = Inr x"
  by (simp add: input_projection_def)

text \<open>
  After the padding and the patchify, which never fail on a latent of rank four,
  \<open>run_transformer\<close> is the chain of its later stages.
\<close>

lemma run_transformer_front:
  assumes "shape latent = [b, c, h, w]"
  shows "\<exists>x h' w'. even h' \<and> even w' \<and> h \<le> h' \<and> w \<le> w' \<and>
     shape x = [b, (h' div 2) * (w' div 2), c * 4] \<and> dtype_of x = dtype_of latent \<and>
     run_transformer ac latent t ctx sd n =
       rbind (input_projection ac x sd (tensor_device latent) BFloat16) (\<lambda>x.
       rbind (sinusoidal_embedding t BFloat16) (\<lambda>emb.
       rbind (timestep_embedder ac emb sd (tensor_device latent) BFloat16) (\<lambda>temb.
       rbind (run_blocks ac x ctx temb sd (tensor_device latent) BFloat16 [0..<blocks_to_run n])
         (\<lambda>x.
       rbind (output_projection ac x temb sd (tensor_device latent) BFloat16) (\<lambda>x.
       rbind (unpatchify x b c h' w') (\<lambda>x.
       if h' \<noteq> h \<or> w' \<noteq> w then crop4 x h w else Inr x))))))"
proof (cases "(2 - h mod 2) mod 2 > 0 \<or> (2 - w mod 2) mod 2 > 0")
  case True
  define h' where "h' = h + (2 - h mod 2) mod 2"
  define w' where "w' = w + (2 - w mod 2) mod 2"
  obtain l' where l': "F_pad latent ((2 - w mod 2) mod 2) ((2 - h mod 2) mod 2) = Inr l'"
    "shape l' = [b, c, h', w']" "dtype_of l' = dtype_of latent"
    using F_pad_ok4[OF assms] unfolding h'_def w'_def by blast
  have ev: "even h'" "even w'" unfolding h'_def w'_def by (rule even_padded)+
  obtain x where x: "patchify l' b c h' w' = Inr x" "shape x = [b, (h' div 2) * (w' div 2), c * 4]"
    "dtype_of x = dtype_of l'"
    using patchify_ok[OF l'(2) ev] by blast
  have ne: "h' \<noteq> h \<or> w' \<noteq> w" using True unfolding h'_def w'_def by auto
  have le: "h \<le> h'" "w \<le> w'" unfolding h'_def w'_def by simp_all
  show ?thesis
    apply (rule exI[of _ x], rule exI[of _ h'], rule exI[of _ w'])
    using True ne ev le x l' assms
    by (simp add: run_transformer_def Let_def rbind_simps tensor_device_def)
next
  case False
  then have ev: "even h" "even w" by (simp_all add: pad_amount split: if_splits)
  obtain x where x: "patchify latent b c h w = Inr x" "shape x = [b, (h div 2) * (w div 2), c * 4]"
    "dtype_of x = dtype_of latent"
    using patchify_ok[OF assms ev] by blast
  show ?thesis
    apply (rule exI[of _ x], rule exI[of _ h], rule exI[of _ w])
    using False ev x assms
    by (simp add: run_transformer_def Let_def rbind_simps)
qed

lemma str_nat_digit: "n < 10 \<Longrightarrow> str_nat n = [''0123456789'' ! n]"
  by (subst str_nat.simps) simp

lemma apply_transformer_block_skips:
  "sd (''model.diffusion_model.transformer_blocks.'' @ str_nat i @ ''.img_mod.1.weight'') = None
   \<Longrightarrow> apply_transformer_block ac x ctx temb i sd dev dt = Inr x"
  by (simp add: apply_transformer_block_def)

lemma run_transformer_missing_linear_2:
  assumes "shape latent = [b, c, h, w]" "shape timestep = [T]"
    and "sd ''model.diffusion_model.img_in.weight'' = None"
    and "sd ''model.diffusion_model.time_text_embed.timestep_embedder.linear_1.weight'' = Some w1"
    and "sd ''model.diffusion_model.time_text_embed.timestep_embedder.linear_2.weight'' = None"
  shows "run_transformer ac latent timestep ctx sd n = Inl AttributeError"
proof -
  obtain x h' w' where r: "run_transformer ac latent timestep ctx sd n =
       rbind (input_projection ac x sd (tensor_device latent) BFloat16) (\<lambda>x.
       rbind (sinusoidal_embedding timestep BFloat16) (\<lambda>emb.
       rbind (timestep_embedder ac emb sd (tensor_device latent) BFloat16) (\<lambda>temb.
       rbind (run_blocks ac x ctx temb sd (tensor_device latent) BFloat16 [0..<blocks_to_run n])
         (\<lambda>x.
       rbind (output_projection ac x temb sd (tensor_device latent) BFloat16) (\<lambda>x.
       rbind (unpatchify x b c h' w') (\<lambda>x.
       if h' \<noteq> h \<or> w' \<noteq> w then crop4 x h w else Inr x))))))"
    using run_transformer_front[OF assms(1), of ac timestep ctx sd n]
    by (elim exE conjE) (rule that)
  obtain e where e: "sinusoidal_embedding timestep BFloat16 = Inr e"
    using sinusoidal_embedding_ok[OF assms(2)] by blast
  have ip: "input_projection ac x sd (tensor_device latent) BFloat16 = Inr x"
    by (rule input_projection_absent) (rule assms(3))
  have te: "timestep_embedder ac e sd (tensor_device latent) BFloat16 = Inl AttributeError"
    by (rule timestep_embedder_missing_second) (rule assms(4), rule assms(5))
  show ?thesis
    unfolding r by (simp only: ip e te rbind_simps)
qed

lemma run_transformer_shape:
  assumes "shape latent = [B, C, H, W]" and "run_transformer ac latent t ctx sd n = Inr y"
  shows "shape y = [B, C, H, W]"
proof -
  obtain x h' w' where le: "H \<le> h'" "W \<le> w'"
    and r: "run_transformer ac latent t ctx sd n =
       rbind (input_projection ac x sd (tensor_device latent) BFloat16) (\<lambda>x.
       rbind (sinusoidal_embedding t BFloat16) (\<lambda>emb.
       rbind (timestep_embedder ac emb sd (tensor_device latent) BFloat16) (\<lambda>temb.
       rbind (run_blocks ac x ctx temb sd (tensor_device latent) BFloat16 [0..<blocks_to_run n])
         (\<lambda>x.
       rbind (output_projection ac x temb sd (tensor_device latent) BFloat16) (\<lambda>x.
       rbind (unpatchify x B C h' w') (\<lambda>x.
       if h' \<noteq> H \<or> w' \<noteq> W then crop4 x H W else Inr x))))))"
    using run_transformer_front[OF assms(1), of ac t ctx sd n]
    by (elim exE conjE) (rule that)
  from assms(2)[unfolded r] obtain x6 x7 where u: "unpatchify x6 B C h' w' = Inr x7"
     and c: "(if h' \<noteq> H \<or> w' \<noteq> W then crop4 x7 H W else Inr x7) = Inr y"
    unfolding rbind_Inr by (elim exE conjE)
  have s7: "shape x7 = [B, C, h', w']" by (rule unpatchify_shape[OF u])
  show ?thesis
  proof (cases "h' \<noteq> H \<or> w' \<noteq> W")
    case True
    with c have "crop4 x7 H W = Inr y" by simp
    from crop4_shape[OF this s7] le show ?thesis by (simp add: min_def)
  next
    case False
    with c s7 show ?thesis by simp
  qed
qed

section \<open>Weights that fit: every stage returns\<close>

lemma shape_autocast_to [simp]: "shape (autocast_to ac dt t) = shape t"
  by (simp add: autocast_to_def)

lemma vals_autocast_to [simp]: "vals (autocast_to ac dt t) = vals t"
  by (simp add: autocast_to_def)

lemma dtype_fits_bf16 [simp]: "dtype_fits ac BFloat16"
  by (simp add: dtype_fits_def)

lemma dtype_fits_promote:
  "dtype_fits ac a \<Longrightarrow> dtype_fits ac b \<Longrightarrow> dtype_fits ac (promote a b)"
  by (auto simp: dtype_fits_def promote_def)

lemma dtype_fits_autocast_bf16:
  "dtype_fits ac (dtype_of t) \<Longrightarrow> dtype_of (autocast_to ac BFloat16 t) = BFloat16"
  by (auto simp: dtype_fits_def autocast_to_def)

lemma dtype_fits_autocast_f32:
  "dtype_fits ac (dtype_of t) \<Longrightarrow> dtype_fits ac (dtype_of (autocast_to ac Float32 t))"
  by (auto simp: dtype_fits_def autocast_to_def)

lemma bshape_row: "bshape [n, k] [k] = Some [n, k]"
  by (simp add: bshape_def)

lemma bshape_mod: "T = 1 \<or> T = B \<Longrightarrow> bshape [B, N, D] [T, 1, D] = Some [B, N, D]"
  by (auto simp: bshape_def)

lemma bshape_gate: "T = 1 \<or> T = B \<Longrightarrow> bshape [T, 1, D] [B, N, D] = Some [B, N, D]"
  by (auto simp: bshape_def)

lemma bshape_same: "bshape [B, N, D] [B, N, D] = Some [B, N, D]"
  by (simp add: bshape_def)

lemma F_linear_fit:
  assumes "shape x = pre @ [inp]" "shape w = [out, inp]"
    and "dtype_fits ac (dtype_of x)" "dtype_of w = BFloat16"
    and "case bias of None \<Rightarrow> True | Some b \<Rightarrow> shape b = [out] \<and> dtype_of b = BFloat16"
  shows "\<exists>y. F_linear ac x w bias = Inr y \<and> shape y = pre @ [out] \<and> dtype_of y = BFloat16"
proof -
  have dx: "dtype_of (autocast_to ac BFloat16 x) = BFloat16"
    by (rule dtype_fits_autocast_bf16) (rule assms(3))
  have dw: "dtype_of (autocast_to ac BFloat16 w) = BFloat16"
    using assms(4) by (simp add: autocast_to_def)
  show ?thesis
  proof (cases bias)
    case None
    then show ?thesis using assms(1,2) dx dw
      by (simp add: F_linear_def Let_def)
  next
    case (Some b)
    with assms(5) have b: "shape b = [out]" "dtype_of b = BFloat16" by simp_all
    have db: "dtype_of (autocast_to ac BFloat16 b) = BFloat16"
      using b(2) by (simp add: autocast_to_def)
    show ?thesis using Some assms(1,2) dx dw db b(1)
      by (simp add: F_linear_def Let_def bshape_row)
  qed
qed

lemma linear_sd_fit:
  assumes "shape x = pre @ [inp]" "dtype_fits ac (dtype_of x)" "shape w = [out, inp]"
    and "bias_fits sd bkey out"
  shows "\<exists>y. F_linear ac x (to_device dev BFloat16 w)
               (map_option (to_device dev BFloat16) (sd bkey)) = Inr y \<and>
             shape y = pre @ [out] \<and> dtype_of y = BFloat16"
proof (rule F_linear_fit)
  show "shape x = pre @ [inp]" by (rule assms(1))
  show "shape (to_device dev BFloat16 w) = [out, inp]" using assms(3) by simp
  show "dtype_fits ac (dtype_of x)" by (rule assms(2))
  show "dtype_of (to_device dev BFloat16 w) = BFloat16" by simp
  show "case map_option (to_device dev BFloat16) (sd bkey) of None \<Rightarrow> True
        | Some b \<Rightarrow> shape b = [out] \<and> dtype_of b = BFloat16"
    using assms(4) by (cases "sd bkey") (simp_all add: bias_fits_def)
qed

lemma shape_slice_last [simp]: "shape (slice_last t s l) = butlast (shape t) @ [l]"
  by (simp add: slice_last_def)

lemma dtype_slice_last [simp]: "dtype_of (slice_last t s l) = dtype_of t"
  by (simp add: slice_last_def)

lemma sevenfold_div: "0 < d \<Longrightarrow> (7 * d - Suc 0) div d = (6::nat)"
  by (rule div_nat_eqI) simp_all

lemma threefold_div: "0 < d \<Longrightarrow> (3 * d - Suc 0) div d = (2::nat)"
  by (rule div_nat_eqI) simp_all

lemma upt_6: "[0..<6] = [0, 1, 2, 3, 4, 5::nat]"
  by (simp add: upt_rec)

lemma upt_2: "[0..<2] = [0, 1::nat]"
  by (simp add: upt_rec)

lemma chunk_sizes_6:
  "chunk_sizes 6 (6 * d) = [(0, d), (d, d), (2 * d, d), (3 * d, d), (4 * d, d), (5 * d, d)]"
proof (cases "d = 0")
  case True
  then show ?thesis by (simp add: chunk_sizes_def numeral_eq_Suc)
next
  case False
  then have d: "0 < d" by simp
  have sz: "(6 * d + 6 - 1) div 6 = d" by simp
  show ?thesis
    using d by (simp add: chunk_sizes_def sz sevenfold_div upt_6 Let_def)
qed

lemma chunk_sizes_2: "chunk_sizes 2 (2 * d) = [(0, d), (d, d)]"
proof (cases "d = 0")
  case True
  then show ?thesis by (simp add: chunk_sizes_def numeral_eq_Suc)
next
  case False
  then have d: "0 < d" by simp
  have sz: "(2 * d + 2 - 1) div 2 = d" by simp
  show ?thesis
    using d by (simp add: chunk_sizes_def sz threefold_div upt_2 Let_def)
qed

lemma chunk_6_fit:
  "shape t = pre @ [6 * d] \<Longrightarrow>
   chunk 6 t = Inr [slice_last t 0 d, slice_last t d d, slice_last t (2 * d) d,
                    slice_last t (3 * d) d, slice_last t (4 * d) d, slice_last t (5 * d) d]"
  by (simp add: chunk_def chunk_sizes_6)

lemma chunk_2_fit:
  "shape t = pre @ [2 * d] \<Longrightarrow> chunk 2 t = Inr [slice_last t 0 d, slice_last t d d]"
  by (simp add: chunk_def chunk_sizes_2)

lemma F_layer_norm_fit:
  assumes "shape x \<noteq> []" "dtype_fits ac (dtype_of x)"
  shows "\<exists>y. F_layer_norm ac x = Inr y \<and> shape y = shape x \<and> dtype_fits ac (dtype_of y)"
  using assms dtype_fits_autocast_f32[OF assms(2)]
  by (simp add: F_layer_norm_def Let_def)

lemma result_dtype_fits:
  "dtype_fits ac (dtype_of a) \<Longrightarrow> dtype_fits ac (dtype_of b) \<Longrightarrow>
   dtype_fits ac (result_dtype a b)"
  by (simp add: result_dtype_def dtype_fits_promote)

lemma tbin_fit:
  assumes "bshape (shape a) (shape b) = Some s"
    and "dtype_fits ac (dtype_of a)" "dtype_fits ac (dtype_of b)"
  shows "\<exists>y. tbin f a b = Inr y \<and> shape y = s \<and> dtype_fits ac (dtype_of y)"
  using assms by (simp add: tbin_def result_dtype_fits)

lemma modulate_fit:
  assumes "shape h = [B, N, D]" "shape scale = [T, D]" "shape shift = [T, D]" "T = 1 \<or> T = B"
    and "dtype_fits ac (dtype_of h)" "dtype_of scale = BFloat16" "dtype_of shift = BFloat16"
  shows "\<exists>y. modulate h scale shift = Inr y \<and> shape y = [B, N, D] \<and> dtype_fits ac (dtype_of y)"
proof -
  have sc: "unsqueeze1 scale = Inr (Tensor BFloat16 [T, 1, D] (vals scale))"
    using assms(2,6) by (simp add: unsqueeze1_def)
  have sh: "unsqueeze1 shift = Inr (Tensor BFloat16 [T, 1, D] (vals shift))"
    using assms(3,7) by (simp add: unsqueeze1_def)
  obtain m where m: "tmul h (tmap (\<lambda>v. 1 + v) (Tensor BFloat16 [T, 1, D] (vals scale))) = Inr m"
    "shape m = [B, N, D]" "dtype_fits ac (dtype_of m)"
  proof -
    have "bshape (shape h) (shape (tmap (\<lambda>v. 1 + v) (Tensor BFloat16 [T, 1, D] (vals scale))))
        = Some [B, N, D]"
      using assms(1) bshape_mod[OF assms(4)] by simp
    from tbin_fit[OF this, of ac "(*)"] assms(5) show ?thesis
      using that unfolding tmul_def by auto
  qed
  obtain y where y: "tadd m (Tensor BFloat16 [T, 1, D] (vals shift)) = Inr y"
    "shape y = [B, N, D]" "dtype_fits ac (dtype_of y)"
  proof -
    have "bshape (shape m) (shape (Tensor BFloat16 [T, 1, D] (vals shift))) = Some [B, N, D]"
      using m(2) bshape_mod[OF assms(4)] by simp
    from tbin_fit[OF this, of ac "(+)"] m(3) show ?thesis
      using that unfolding tadd_def by auto
  qed
  show ?thesis
    unfolding modulate_def by (simp only: sc sh m(1) y(1) rbind_simps) (simp add: y)
qed

lemma gated_add_fit:
  assumes "shape x = [B, N, D]" "shape gate = [T, D]" "shape h = [B, N, D]" "T = 1 \<or> T = B"
    and "dtype_fits ac (dtype_of x)" "dtype_of gate = BFloat16" "dtype_fits ac (dtype_of h)"
  shows "\<exists>y. gated_add x gate h = Inr y \<and> shape y = [B, N, D] \<and> dtype_fits ac (dtype_of y)"
proof -
  have g: "unsqueeze1 gate = Inr (Tensor BFloat16 [T, 1, D] (vals gate))"
    using assms(2,6) by (simp add: unsqueeze1_def)
  obtain gh where gh: "tmul (Tensor BFloat16 [T, 1, D] (vals gate)) h = Inr gh"
    "shape gh = [B, N, D]" "dtype_fits ac (dtype_of gh)"
  proof -
    have "bshape (shape (Tensor BFloat16 [T, 1, D] (vals gate))) (shape h) = Some [B, N, D]"
      using assms(3) bshape_gate[OF assms(4)] by simp
    from tbin_fit[OF this, of ac "(*)"] assms(7) show ?thesis
      using that unfolding tmul_def by auto
  qed
  obtain y where y: "tadd x gh = Inr y" "shape y = [B, N, D]" "dtype_fits ac (dtype_of y)"
  proof -
    have "bshape (shape x) (shape gh) = Some [B, N, D]"
      using assms(1) gh(2) bshape_same by simp
    from tbin_fit[OF this, of ac "(+)"] assms(5) gh(3) show ?thesis
      using that unfolding tadd_def by auto
  qed
  show ?thesis
    unfolding gated_add_def by (simp only: g gh(1) y(1) rbind_simps) (simp add: y)
qed

lemma two_layers_run:
  assumes "shape x = pre @ [inp]" "dtype_fits ac (dtype_of x)"
    and "sd w1key = Some w1" "two_layers_fit sd w1key b1key w2key b2key inp out"
  shows "\<exists>w2 y. sd w2key = Some w2 \<and>
     rbind (F_linear ac x (to_device dev BFloat16 w1)
              (map_option (to_device dev BFloat16) (sd b1key))) (\<lambda>h.
       F_linear ac (tmap f h) (to_device dev BFloat16 w2)
         (map_option (to_device dev BFloat16) (sd b2key))) = Inr y \<and>
     shape y = pre @ [out] \<and> dtype_of y = BFloat16"
proof -
  define mid where "mid = shape w1 ! 0"
  from assms(3,4) have w1: "shape w1 = [mid, inp]" and b1: "bias_fits sd b1key mid"
    and rest: "case sd w2key of None \<Rightarrow> False
               | Some w2 \<Rightarrow> shape w2 = [out, mid] \<and> bias_fits sd b2key out"
    unfolding two_layers_fit_def mid_def
    by (auto simp: length_Suc_conv numeral_2_eq_2)
  from rest obtain w2 where w2: "sd w2key = Some w2" "shape w2 = [out, mid]"
    and b2: "bias_fits sd b2key out"
    by (cases "sd w2key") simp_all
  obtain h where h: "F_linear ac x (to_device dev BFloat16 w1)
              (map_option (to_device dev BFloat16) (sd b1key)) = Inr h"
    "shape h = pre @ [mid]" "dtype_of h = BFloat16"
    using linear_sd_fit[OF assms(1,2) w1 b1, of dev] by (elim exE conjE) (rule that)
  have sh: "shape (tmap f h) = pre @ [mid]" "dtype_fits ac (dtype_of (tmap f h))"
    using h(2,3) by simp_all
  obtain y where y: "F_linear ac (tmap f h) (to_device dev BFloat16 w2)
         (map_option (to_device dev BFloat16) (sd b2key)) = Inr y"
    "shape y = pre @ [out]" "dtype_of y = BFloat16"
    using linear_sd_fit[OF sh w2(2) b2, of dev] by (elim exE conjE) (rule that)
  show ?thesis
    by (rule exI[of _ w2], rule exI[of _ y]) (simp add: w2(1) h(1) y rbind_simps)
qed

lemma apply_transformer_block_fit:
  assumes x: "shape x = [B, N, D]" "dtype_fits ac (dtype_of x)"
    and t: "shape temb = [T, E]" "dtype_of temb = BFloat16" "T = 1 \<or> T = B"
    and fit: "block_fits sd D E i"
  shows "\<exists>y. apply_transformer_block ac x ctx temb i sd dev BFloat16 = Inr y \<and>
     shape y = [B, N, D] \<and> dtype_fits ac (dtype_of y)"
proof -
  define P where "P = ''model.diffusion_model.transformer_blocks.'' @ str_nat i @ ''.''"
  show ?thesis
  proof (cases "sd (P @ ''img_mod.1.weight'')")
    case None
    then have "apply_transformer_block ac x ctx temb i sd dev BFloat16 = Inr x"
      unfolding apply_transformer_block_def Let_def P_def by simp
    with x show ?thesis by simp
  next
    case (Some w)
    with fit have w: "shape w = [6 * D, E]"
      and wb: "bias_fits sd (P @ ''img_mod.1.bias'') (6 * D)"
      and mlp: "two_layers_fit sd (P @ ''img_mlp.net.0.proj.weight'')
               (P @ ''img_mlp.net.0.proj.bias'') (P @ ''img_mlp.net.2.weight'')
               (P @ ''img_mlp.net.2.bias'') D D"
      unfolding block_fits_def Let_def P_def by simp_all
    have st: "shape (F_silu temb) = [T] @ [E]" "dtype_fits ac (dtype_of (F_silu temb))"
      using t by (simp_all add: F_silu_def)
    obtain md where md: "F_linear ac (F_silu temb) (to_device dev BFloat16 w)
        (map_option (to_device dev BFloat16) (sd (P @ ''img_mod.1.bias''))) = Inr md"
      "shape md = [T] @ [6 * D]" "dtype_of md = BFloat16"
      using linear_sd_fit[OF st w wb, of dev] by (elim exE conjE) (rule that)
    have ch: "chunk 6 md = Inr [slice_last md 0 D, slice_last md D D, slice_last md (2 * D) D,
                    slice_last md (3 * D) D, slice_last md (4 * D) D, slice_last md (5 * D) D]"
      by (rule chunk_6_fit) (rule md(2))
    have sl: "\<And>s. shape (slice_last md s D) = [T, D]" "\<And>s. dtype_of (slice_last md s D) = BFloat16"
      using md(2,3) by simp_all
    have xne: "shape x \<noteq> []" using x(1) by simp
    obtain h1 where h1: "F_layer_norm ac x = Inr h1" "shape h1 = [B, N, D]"
      "dtype_fits ac (dtype_of h1)"
      using F_layer_norm_fit[OF xne x(2)] x(1) by auto
    obtain h2 where h2: "modulate h1 (slice_last md D D) (slice_last md 0 D) = Inr h2"
      "shape h2 = [B, N, D]" "dtype_fits ac (dtype_of h2)"
      using modulate_fit[OF h1(2) sl(1)[of D] sl(1)[of 0] t(3) h1(3) sl(2)[of D] sl(2)[of 0]]
      by (elim exE conjE) (rule that)
    obtain x1 where x1: "gated_add x (slice_last md (2 * D) D) h2 = Inr x1"
      "shape x1 = [B, N, D]" "dtype_fits ac (dtype_of x1)"
      using gated_add_fit[OF x(1) sl(1)[of "2 * D"] h2(2) t(3) x(2) sl(2)[of "2 * D"] h2(3)]
      by (elim exE conjE) (rule that)
    have x1ne: "shape x1 \<noteq> []" using x1(2) by simp
    obtain h3 where h3: "F_layer_norm ac x1 = Inr h3" "shape h3 = [B, N, D]"
      "dtype_fits ac (dtype_of h3)"
      using F_layer_norm_fit[OF x1ne x1(3)] x1(2) by auto
    obtain h4 where h4: "modulate h3 (slice_last md (4 * D) D) (slice_last md (3 * D) D) = Inr h4"
      "shape h4 = [B, N, D]" "dtype_fits ac (dtype_of h4)"
      using modulate_fit[OF h3(2) sl(1)[of "4 * D"] sl(1)[of "3 * D"] t(3) h3(3) sl(2)[of "4 * D"] sl(2)[of "3 * D"]]
      by (elim exE conjE) (rule that)
    obtain h5 where h5: "(case map_option (to_device dev BFloat16)
                                 (sd (P @ ''img_mlp.net.0.proj.weight'')) of
                           None \<Rightarrow> Inr h4
                         | Some w1 \<Rightarrow>
                             rbind (F_linear ac h4 w1
                                (map_option (to_device dev BFloat16)
                                   (sd (P @ ''img_mlp.net.0.proj.bias'')))) (\<lambda>h.
                               case map_option (to_device dev BFloat16)
                                      (sd (P @ ''img_mlp.net.2.weight'')) of
                                 None \<Rightarrow> Inl TypeError
                               | Some w2 \<Rightarrow> F_linear ac (F_gelu h) w2
                                   (map_option (to_device dev BFloat16)
                                      (sd (P @ ''img_mlp.net.2.bias''))))) = Inr h5"
      "shape h5 = [B, N, D]" "dtype_fits ac (dtype_of h5)"
    proof (cases "sd (P @ ''img_mlp.net.0.proj.weight'')")
      case None
      then show ?thesis using that[of h4] h4 by simp
    next
      case (Some w1)
      have s4: "shape h4 = [B, N] @ [D]" using h4(2) by simp
      from two_layers_run[OF s4 h4(3) Some mlp, of dev gelu_tanh]
      obtain w2 y where "sd (P @ ''img_mlp.net.2.weight'') = Some w2"
        "rbind (F_linear ac h4 (to_device dev BFloat16 w1)
              (map_option (to_device dev BFloat16) (sd (P @ ''img_mlp.net.0.proj.bias'')))) (\<lambda>h.
           F_linear ac (tmap gelu_tanh h) (to_device dev BFloat16 w2)
             (map_option (to_device dev BFloat16) (sd (P @ ''img_mlp.net.2.bias'')))) = Inr y"
        "shape y = [B, N] @ [D]" "dtype_of y = BFloat16"
        by (elim exE conjE)
      then show ?thesis using that[of y] Some by (simp add: F_gelu_def)
    qed
    obtain x2 where x2: "gated_add x1 (slice_last md (5 * D) D) h5 = Inr x2"
      "shape x2 = [B, N, D]" "dtype_fits ac (dtype_of x2)"
      using gated_add_fit[OF x1(2) sl(1)[of "5 * D"] h5(2) t(3) x1(3) sl(2)[of "5 * D"] h5(3)]
      by (elim exE conjE) (rule that)
    have "apply_transformer_block ac x ctx temb i sd dev BFloat16 = Inr x2"
      unfolding apply_transformer_block_def Let_def P_def[symmetric]
      by (simp only: Some option.map option.case md(1) ch h1(1) h2(1) x1(1) h3(1) h4(1) h5(1)
          x2(1) rbind_simps list.case)
    with x2 show ?thesis by simp
  qed
qed

lemma run_blocks_fit:
  assumes "shape x = [B, N, D]" "dtype_fits ac (dtype_of x)"
    and "shape temb = [T, E]" "dtype_of temb = BFloat16" "T = 1 \<or> T = B"
    and "list_all (block_fits sd D E) ixs"
  shows "\<exists>y. run_blocks ac x ctx temb sd dev BFloat16 ixs = Inr y \<and>
     shape y = [B, N, D] \<and> dtype_fits ac (dtype_of y)"
  using assms(1,2,6)
proof (induction ixs arbitrary: x)
  case Nil
  then show ?case by simp
next
  case (Cons i ixs)
  from Cons.prems(3) have fi: "block_fits sd D E i" and frest: "list_all (block_fits sd D E) ixs"
    by simp_all
  obtain x' where x': "apply_transformer_block ac x ctx temb i sd dev BFloat16 = Inr x'"
    "shape x' = [B, N, D]" "dtype_fits ac (dtype_of x')"
    using apply_transformer_block_fit[OF Cons.prems(1,2) assms(3,4,5) fi, of ctx dev]
    by (elim exE conjE) (rule that)
  from Cons.IH[OF x'(2,3) frest] x'(1) show ?case
    by (simp add: rbind_simps)
qed
lemma input_projection_fit:
  assumes "shape x = [B, N, K]" "dtype_fits ac (dtype_of x)"
    and "proj_ok sd ''model.diffusion_model.img_in.weight'' ''model.diffusion_model.img_in.bias'' K D"
  shows "\<exists>y. input_projection ac x sd dev BFloat16 = Inr y \<and> shape y = [B, N, D] \<and>
     dtype_fits ac (dtype_of y)"
proof (cases "sd ''model.diffusion_model.img_in.weight''")
  case None
  then show ?thesis using assms by (simp add: input_projection_def proj_ok_def)
next
  case (Some w)
  with assms(3) have w: "shape w = [D, K]"
    and bs: "bias_fits sd ''model.diffusion_model.img_in.bias'' D"
    by (simp_all add: proj_ok_def)
  have sx: "shape x = [B, N] @ [K]" using assms(1) by simp
  obtain y where y: "F_linear ac x (to_device dev BFloat16 w)
      (map_option (to_device dev BFloat16) (sd ''model.diffusion_model.img_in.bias'')) = Inr y"
    "shape y = [B, N] @ [D]" "dtype_of y = BFloat16"
    using linear_sd_fit[OF sx assms(2) w bs, of dev] by (elim exE conjE) (rule that)
  show ?thesis using Some y by (simp add: input_projection_def)
qed
lemma timestep_embedder_fit:
  assumes "shape emb = [T, 256]" "dtype_of emb = BFloat16" "embedder_fits sd E"
  shows "\<exists>y. timestep_embedder ac emb sd dev BFloat16 = Inr y \<and> shape y = [T, E] \<and>
     dtype_of y = BFloat16"
proof (cases "sd ''model.diffusion_model.time_text_embed.timestep_embedder.linear_1.weight''")
  case None
  with assms(3) have "E = 256" by (simp add: embedder_fits_def two_layers_fit_def)
  with None assms(1,2) show ?thesis by (simp add: timestep_embedder_def)
next
  case (Some w1)
  have se: "shape emb = [T] @ [256]" "dtype_fits ac (dtype_of emb)"
    using assms(1,2) by simp_all
  from two_layers_run[OF se Some assms(3)[unfolded embedder_fits_def], of dev silu]
  obtain w2 y where w2:
    "sd ''model.diffusion_model.time_text_embed.timestep_embedder.linear_2.weight'' = Some w2"
    and y: "rbind (F_linear ac emb (to_device dev BFloat16 w1)
       (map_option (to_device dev BFloat16)
          (sd ''model.diffusion_model.time_text_embed.timestep_embedder.linear_1.bias''))) (\<lambda>h.
       F_linear ac (tmap silu h) (to_device dev BFloat16 w2)
         (map_option (to_device dev BFloat16)
            (sd ''model.diffusion_model.time_text_embed.timestep_embedder.linear_2.bias''))) = Inr y"
    "shape y = [T] @ [E]" "dtype_of y = BFloat16"
    by (elim exE conjE)
  show ?thesis using Some w2 y by (simp add: timestep_embedder_def F_silu_def)
qed
lemma output_projection_fit:
  assumes x: "shape x = [B, N, D]" "dtype_fits ac (dtype_of x)"
    and t: "shape temb = [T, E]" "dtype_of temb = BFloat16" "T = 1 \<or> T = B"
    and no: "norm_out_fits sd D E"
    and po: "proj_ok sd ''model.diffusion_model.proj_out.weight''
               ''model.diffusion_model.proj_out.bias'' D K"
  shows "\<exists>y. output_projection ac x temb sd dev BFloat16 = Inr y \<and> shape y = [B, N, K]"
proof -
  obtain x1 where x1: "(case sd ''model.diffusion_model.norm_out.linear.weight'' of
              None \<Rightarrow> Inr x
            | Some w \<Rightarrow>
                rbind (F_linear ac (F_silu temb) (to_device dev BFloat16 w)
                         (map_option (to_device dev BFloat16)
                            (sd ''model.diffusion_model.norm_out.linear.bias''))) (\<lambda>md.
                rbind (chunk 2 md) (\<lambda>cs.
                  case cs of
                    [scale, shift] \<Rightarrow>
                      rbind (F_layer_norm ac x) (\<lambda>x. modulate x scale shift)
                  | _ \<Rightarrow> Inl ValueError))) = Inr x1"
    "shape x1 = [B, N, D]" "dtype_fits ac (dtype_of x1)"
  proof (cases "sd ''model.diffusion_model.norm_out.linear.weight''")
    case None
    then show ?thesis using that[of x] x by simp
  next
    case (Some w)
    with no have w: "shape w = [2 * D, E]"
      and wb: "bias_fits sd ''model.diffusion_model.norm_out.linear.bias'' (2 * D)"
      by (simp_all add: norm_out_fits_def)
    have st: "shape (F_silu temb) = [T] @ [E]" "dtype_fits ac (dtype_of (F_silu temb))"
      using t by (simp_all add: F_silu_def)
    obtain md where md: "F_linear ac (F_silu temb) (to_device dev BFloat16 w)
        (map_option (to_device dev BFloat16)
           (sd ''model.diffusion_model.norm_out.linear.bias'')) = Inr md"
      "shape md = [T] @ [2 * D]" "dtype_of md = BFloat16"
      using linear_sd_fit[OF st w wb, of dev] by (elim exE conjE) (rule that)
    have ch: "chunk 2 md = Inr [slice_last md 0 D, slice_last md D D]"
      by (rule chunk_2_fit) (rule md(2))
    have sl: "\<And>s. shape (slice_last md s D) = [T, D]" "\<And>s. dtype_of (slice_last md s D) = BFloat16"
      using md(2,3) by simp_all
    have xne: "shape x \<noteq> []" using x(1) by simp
    obtain h1 where h1: "F_layer_norm ac x = Inr h1" "shape h1 = [B, N, D]"
      "dtype_fits ac (dtype_of h1)"
      using F_layer_norm_fit[OF xne x(2)] x(1) by auto
    obtain h2 where h2: "modulate h1 (slice_last md 0 D) (slice_last md D D) = Inr h2"
      "shape h2 = [B, N, D]" "dtype_fits ac (dtype_of h2)"
      using modulate_fit[OF h1(2) sl(1)[of 0] sl(1)[of D] t(3) h1(3) sl(2)[of 0] sl(2)[of D]]
      by (elim exE conjE) (rule that)
    have "rbind (F_linear ac (F_silu temb) (to_device dev BFloat16 w)
                         (map_option (to_device dev BFloat16)
                            (sd ''model.diffusion_model.norm_out.linear.bias''))) (\<lambda>md.
                rbind (chunk 2 md) (\<lambda>cs.
                  case cs of
                    [scale, shift] \<Rightarrow>
                      rbind (F_layer_norm ac x) (\<lambda>x. modulate x scale shift)
                  | _ \<Rightarrow> Inl ValueError)) = Inr h2"
      by (simp only: md(1) ch h1(1) h2(1) rbind_simps list.case)
    then show ?thesis using that[of h2] Some h2 by simp
  qed
  obtain y where y: "(case sd ''model.diffusion_model.proj_out.weight'' of
                   None \<Rightarrow> Inr x1
                 | Some w \<Rightarrow>
                     F_linear ac x1 (to_device dev BFloat16 w)
                       (map_option (to_device dev BFloat16)
                          (sd ''model.diffusion_model.proj_out.bias''))) = Inr y"
    "shape y = [B, N, K]"
  proof (cases "sd ''model.diffusion_model.proj_out.weight''")
    case None
    with po have "D = K" by (simp add: proj_ok_def)
    with None show ?thesis using that[of x1] x1 by simp
  next
    case (Some w)
    with po have w: "shape w = [K, D]"
      and bs: "bias_fits sd ''model.diffusion_model.proj_out.bias'' K"
      by (simp_all add: proj_ok_def)
    have sx: "shape x1 = [B, N] @ [D]" using x1(2) by simp
    obtain y where "F_linear ac x1 (to_device dev BFloat16 w)
        (map_option (to_device dev BFloat16) (sd ''model.diffusion_model.proj_out.bias'')) = Inr y"
      "shape y = [B, N] @ [K]" "dtype_of y = BFloat16"
      using linear_sd_fit[OF sx x1(3) w bs, of dev] by (elim exE conjE) (rule that)
    then show ?thesis using that[of y] Some by simp
  qed
  show ?thesis
    unfolding output_projection_def Let_def
    by (rule exI[of _ y]) (simp add: x1(1) y rbind_simps cong: option.case_cong)
qed
lemma unpatchify_ok:
  assumes "shape x = [b, (h div 2) * (w div 2), c * 4]" "even h" "even w"
  shows "\<exists>y. unpatchify x b c h w = Inr y"
  using assms
  by (auto simp: unpatchify_def reshape_def permute_def rbind_simps Let_def elim!: evenE)
lemma crop4_ok: "shape x = [b, c, h, w] \<Longrightarrow> \<exists>y. crop4 x oh ow = Inr y"
  by (simp add: crop4_def)

lemma weights_fit_parts:
  assumes "weights_fit sd C D E"
  shows "proj_ok sd ''model.diffusion_model.img_in.weight''
            ''model.diffusion_model.img_in.bias'' (C * 4) D"
    and "embedder_fits sd E"
    and "list_all (block_fits sd D E) [0..<10]"
    and "norm_out_fits sd D E"
    and "proj_ok sd ''model.diffusion_model.proj_out.weight''
            ''model.diffusion_model.proj_out.bias'' D (C * 4)"
  using assms unfolding weights_fit_def by blast+

lemma blocks_fit_prefix:
  assumes "list_all (block_fits sd D E) [0..<10]"
  shows "list_all (block_fits sd D E) [0..<blocks_to_run n]"
proof -
  have "blocks_to_run n \<le> 10" by (simp add: blocks_to_run_def)
  then have "set [0..<blocks_to_run n] \<subseteq> set [0..<10]"
    by (simp only: set_upt ivl_subset) simp
  with assms show ?thesis unfolding list_all_iff by blast
qed
lemma run_transformer_returns:
  assumes "shape latent = [B, C, H, W]" "shape timestep = [T]" "T = 1 \<or> T = B"
    and "dtype_fits ac (dtype_of latent)" "weights_fit sd C D E"
  shows "\<exists>y. run_transformer ac latent timestep ctx sd n = Inr y"
proof -
  let ?dev = "tensor_device latent"
  note pin = weights_fit_parts(1)[OF assms(5)]
  note emb = weights_fit_parts(2)[OF assms(5)]
  note blocks = weights_fit_parts(3)[OF assms(5)]
  note nout = weights_fit_parts(4)[OF assms(5)]
  note pout = weights_fit_parts(5)[OF assms(5)]
  obtain x h' w' where ev: "even h'" "even w'"
    and sx: "shape x = [B, (h' div 2) * (w' div 2), C * 4]"
    and dx: "dtype_of x = dtype_of latent"
    and r: "run_transformer ac latent timestep ctx sd n =
       rbind (input_projection ac x sd ?dev BFloat16) (\<lambda>x.
       rbind (sinusoidal_embedding timestep BFloat16) (\<lambda>emb.
       rbind (timestep_embedder ac emb sd ?dev BFloat16) (\<lambda>temb.
       rbind (run_blocks ac x ctx temb sd ?dev BFloat16 [0..<blocks_to_run n]) (\<lambda>x.
       rbind (output_projection ac x temb sd ?dev BFloat16) (\<lambda>x.
       rbind (unpatchify x B C h' w') (\<lambda>x.
       if h' \<noteq> H \<or> w' \<noteq> W then crop4 x H W else Inr x))))))"
    using run_transformer_front[OF assms(1), of ac timestep ctx sd n]
    by (elim exE conjE) (rule that)
  have fx: "dtype_fits ac (dtype_of x)" using assms(4) dx by simp
  obtain x1 where x1: "input_projection ac x sd ?dev BFloat16 = Inr x1"
    "shape x1 = [B, (h' div 2) * (w' div 2), D]" "dtype_fits ac (dtype_of x1)"
    using input_projection_fit[OF sx fx pin, of ?dev] by (elim exE conjE) (rule that)
  obtain e where e: "sinusoidal_embedding timestep BFloat16 = Inr e"
    "shape e = [T, 256]" "dtype_of e = BFloat16"
    using sinusoidal_embedding_ok[OF assms(2), of BFloat16] by (elim exE conjE) (rule that)
  obtain te where te: "timestep_embedder ac e sd ?dev BFloat16 = Inr te"
    "shape te = [T, E]" "dtype_of te = BFloat16"
    using timestep_embedder_fit[OF e(2,3) emb, of ac ?dev] by (elim exE conjE) (rule that)
  note bl = blocks_fit_prefix[OF blocks, of n]
  obtain x2 where x2: "run_blocks ac x1 ctx te sd ?dev BFloat16 [0..<blocks_to_run n] = Inr x2"
    "shape x2 = [B, (h' div 2) * (w' div 2), D]" "dtype_fits ac (dtype_of x2)"
    using run_blocks_fit[OF x1(2,3) te(2,3) assms(3) bl, of ctx ?dev]
    by (elim exE conjE) (rule that)
  obtain x3 where x3: "output_projection ac x2 te sd ?dev BFloat16 = Inr x3"
    "shape x3 = [B, (h' div 2) * (w' div 2), C * 4]"
    using output_projection_fit[OF x2(2,3) te(2,3) assms(3) nout pout, of ?dev]
    by (elim exE conjE) (rule that)
  obtain x4 where x4: "unpatchify x3 B C h' w' = Inr x4"
    using unpatchify_ok[OF x3(2) ev] by (elim exE) (rule that)
  have s4: "shape x4 = [B, C, h', w']" by (rule unpatchify_shape[OF x4])
  obtain x5 where x5: "crop4 x4 H W = Inr x5"
    using crop4_ok[OF s4, of H W] by (elim exE) (rule that)
  have "run_transformer ac latent timestep ctx sd n =
      (if h' \<noteq> H \<or> w' \<noteq> W then crop4 x4 H W else Inr x4)"
    unfolding r by (simp only: x1(1) e(1) te(1) x2(1) x3(1) x4 rbind_simps)
  then show ?thesis
    by (cases "h' \<noteq> H \<or> w' \<noteq> W") (simp_all add: x5)
qed

lemma dot_zero: "dot xs (replicate n 0) = 0"
proof (induction xs arbitrary: n)
  case Nil
  then show ?case by (simp add: dot_def)
next
  case (Cons x xs)
  then show ?case by (cases n) (simp_all add: dot_def)
qed

lemma upt_24: "[0..<24] = [0,1,2,3,4,5,6,7,8,9,10,11,12,13,14,15,16,17,18,19,20,21,22,23::nat]"
  by (simp add: upt_rec)

lemma one_block_patchify:
  "patchify (Tensor BFloat16 [1, 1, 2, 2] [1, 1, 1, 1]) 1 1 2 2 =
     Inr (Tensor BFloat16 [1, 1, 4] [1, 1, 1, 1])"
  by (simp add: patchify_def reshape_def permute_def rbind_simps flat_offset_def index_of_def
      upt_rec)

lemma one_block_embedder:
  assumes "shape e = [1, 256]" "dtype_of e = BFloat16"
  shows "timestep_embedder True e one_block_sd dev BFloat16 = Inr (Tensor BFloat16 [1, 1] [0])"
  using assms
  by (simp add: timestep_embedder_def one_block_sd_def F_linear_def autocast_to_def rbind_simps
      rows_of_def dot_zero F_silu_def tmap_def silu_def to_device_def dot_def)

lemma norm_row_const: "norm_row [c, c, c, c] = [0, 0, 0, 0]"
  by (simp add: norm_row_def)

lemma one_block_mod:
  "F_linear True (F_silu (Tensor BFloat16 [1, 1] [0]))
     (to_device dev BFloat16 (Tensor BFloat16 [24, 1] (replicate 24 0)))
     (Some (to_device dev BFloat16 (Tensor BFloat16 [24]
          [1, 1, 1, 1, 0, 0, 0, 0, 1, 1, 1, 1, 2, 2, 2, 2, 0, 0, 0, 0, 1, 1, 1, 1]))) =
   Inr (Tensor BFloat16 [1, 24]
          [1, 1, 1, 1, 0, 0, 0, 0, 1, 1, 1, 1, 2, 2, 2, 2, 0, 0, 0, 0, 1, 1, 1, 1])"
  by (simp add: F_linear_def autocast_to_def rows_of_def F_silu_def tmap_def silu_def
      to_device_def dot_def upt_24 Let_def bshape_def lead1_def)

lemma one_block_chunk:
  "chunk 6 (Tensor BFloat16 [1, 24]
          [1, 1, 1, 1, 0, 0, 0, 0, 1, 1, 1, 1, 2, 2, 2, 2, 0, 0, 0, 0, 1, 1, 1, 1]) =
   Inr [Tensor BFloat16 [1, 4] [1, 1, 1, 1], Tensor BFloat16 [1, 4] [0, 0, 0, 0],
        Tensor BFloat16 [1, 4] [1, 1, 1, 1], Tensor BFloat16 [1, 4] [2, 2, 2, 2],
        Tensor BFloat16 [1, 4] [0, 0, 0, 0], Tensor BFloat16 [1, 4] [1, 1, 1, 1]]"
  by (simp add: chunk_def chunk_sizes_def slice_last_def rows_of_def Let_def upt_rec)

lemma one_block_norm:
  "F_layer_norm True (Tensor dt [1, 1, 4] [c, c, c, c]) =
   Inr (Tensor (if dt = Float64 then Float64 else Float32) [1, 1, 4] [0, 0, 0, 0])"
  by (simp add: F_layer_norm_def autocast_to_def rows_of_def norm_row_const Let_def)

lemma one_block_modulate:
  "modulate (Tensor Float32 [1, 1, 4] [0, 0, 0, 0]) (Tensor BFloat16 [1, 4] [0, 0, 0, 0])
     (Tensor BFloat16 [1, 4] [c, c, c, c]) = Inr (Tensor Float32 [1, 1, 4] [c, c, c, c])"
  by (simp add: modulate_def unsqueeze1_def tbin_def tmul_def tadd_def result_dtype_def
      promote_def lead1_def bshape_def rbind_simps rows_of_def tmap_def upt_rec)

lemma one_block_gated_add:
  "gated_add (Tensor dt [1, 1, 4] [a, a, a, a]) (Tensor BFloat16 [1, 4] [1, 1, 1, 1])
     (Tensor Float32 [1, 1, 4] [c, c, c, c]) =
   Inr (Tensor (promote dt Float32) [1, 1, 4] [a + c, a + c, a + c, a + c])"
  by (simp add: gated_add_def unsqueeze1_def tbin_def tmul_def tadd_def result_dtype_def
      promote_def lead1_def bshape_def rbind_simps rows_of_def upt_rec)

lemma one_block_first:
  "apply_transformer_block True (Tensor BFloat16 [1, 1, 4] [1, 1, 1, 1]) ctx
     (Tensor BFloat16 [1, 1] [0]) 0 one_block_sd dev BFloat16 =
   Inr (Tensor Float32 [1, 1, 4] [4, 4, 4, 4])"
proof -
  have keys:
    "one_block_sd ''model.diffusion_model.transformer_blocks.0.img_mod.1.weight'' =
       Some (Tensor BFloat16 [24, 1] (replicate 24 0))"
    "one_block_sd ''model.diffusion_model.transformer_blocks.0.img_mod.1.bias'' =
       Some (Tensor BFloat16 [24]
          [1, 1, 1, 1, 0, 0, 0, 0, 1, 1, 1, 1, 2, 2, 2, 2, 0, 0, 0, 0, 1, 1, 1, 1])"
    "one_block_sd ''model.diffusion_model.transformer_blocks.0.img_mlp.net.0.proj.weight'' = None"
    by (simp_all add: one_block_sd_def)
  have g1: "gated_add (Tensor BFloat16 [1, 1, 4] [1, 1, 1, 1]) (Tensor BFloat16 [1, 4] [1, 1, 1, 1])
     (Tensor Float32 [1, 1, 4] [1, 1, 1, 1]) = Inr (Tensor Float32 [1, 1, 4] [2, 2, 2, 2])"
    using one_block_gated_add[of BFloat16 1 1] by (simp add: promote_def)
  have g2: "gated_add (Tensor Float32 [1, 1, 4] [2, 2, 2, 2]) (Tensor BFloat16 [1, 4] [1, 1, 1, 1])
     (Tensor Float32 [1, 1, 4] [2, 2, 2, 2]) = Inr (Tensor Float32 [1, 1, 4] [4, 4, 4, 4])"
    using one_block_gated_add[of Float32 2 2] by (simp add: promote_def)
  have pre: "''model.diffusion_model.transformer_blocks.'' @ str_nat 0 @ ''.'' =
      ''model.diffusion_model.transformer_blocks.0.''"
    by (simp add: str_nat_digit)
  show ?thesis
    unfolding apply_transformer_block_def Let_def pre
    by (simp only: append.simps keys option.map option.case list.case one_block_mod
      one_block_chunk one_block_norm one_block_modulate g1 g2 rbind_simps dtype.distinct
      if_False)
qed

lemma one_block_rest:
  "run_blocks True x ctx temb one_block_sd dev BFloat16 [1, 2, 3, 4, 5, 6, 7, 8, 9] = Inr x"
proof -
  have "\<And>i. 1 \<le> i \<Longrightarrow> i < 10 \<Longrightarrow>
      apply_transformer_block True x ctx temb i one_block_sd dev BFloat16 = Inr x"
  proof (rule apply_transformer_block_skips)
    fix i :: nat
    assume "1 \<le> i" "i < 10"
    then have "i \<in> {1, 2, 3, 4, 5, 6, 7, 8, 9}" by auto
    then show "one_block_sd (''model.diffusion_model.transformer_blocks.'' @ str_nat i @
        ''.img_mod.1.weight'') = None"
      by (auto simp: one_block_sd_def str_nat_digit)
  qed
  then show ?thesis by (simp add: rbind_simps)
qed

lemma one_block_unpatchify:
  "unpatchify (Tensor Float32 [1, 1, 4] [4, 4, 4, 4]) 1 1 2 2 =
     Inr (Tensor Float32 [1, 1, 2, 2] [4, 4, 4, 4])"
  by (simp add: unpatchify_def reshape_def permute_def rbind_simps flat_offset_def index_of_def
      upt_rec)

lemma one_block_output:
  "output_projection True x temb one_block_sd dev BFloat16 = Inr x"
  by (simp add: output_projection_def one_block_sd_def rbind_simps)

lemma one_block_run:
  "run_transformer True (Tensor BFloat16 [1, 1, 2, 2] [1, 1, 1, 1]) (Tensor Float32 [1] [0])
     ctx one_block_sd 60 = Inr (Tensor Float32 [1, 1, 2, 2] [4, 4, 4, 4])"
proof -
  obtain e where e: "sinusoidal_embedding (Tensor Float32 [1] [0]) BFloat16 = Inr e"
    "shape e = [1, 256]" "dtype_of e = BFloat16"
    using sinusoidal_embedding_ok[of "Tensor Float32 [1] [0]" 1 BFloat16]
    by (auto simp del: One_nat_def)
  have inp: "input_projection True x one_block_sd dev BFloat16 = Inr x" for x dev
    by (rule input_projection_absent) (simp add: one_block_sd_def)
  have ten: "[0..<blocks_to_run 60] = [0, 1, 2, 3, 4, 5, 6, 7, 8, 9]"
    by (simp add: blocks_to_run_def upt_rec)
  have blocks: "run_blocks True (Tensor BFloat16 [1, 1, 4] [1, 1, 1, 1]) ctx
      (Tensor BFloat16 [1, 1] [0]) one_block_sd dev BFloat16 [0..<blocks_to_run 60] =
      Inr (Tensor Float32 [1, 1, 4] [4, 4, 4, 4])" for dev
    unfolding ten
    by (subst run_blocks.simps(2)) (simp only: one_block_first one_block_rest rbind_simps)
  have pad: "(2 - (2::nat) mod 2) mod 2 = 0" by simp
  show ?thesis
    unfolding run_transformer_def Let_def
    by (simp only: tensor.sel list.case pad less_irrefl simp_thms if_False rbind_simps
      one_block_patchify inp e(1) one_block_embedder[OF e(2,3)] blocks one_block_output
      one_block_unpatchify)
qed

lemma one_block_fits: "weights_fit one_block_sd 1 4 1"
proof -
  have b0: "block_fits one_block_sd 4 1 0"
    by (simp add: block_fits_def str_nat_digit one_block_sd_def bias_fits_def two_layers_fit_def)
  have bi: "block_fits one_block_sd 4 1 i" if "i \<in> {1, 2, 3, 4, 5, 6, 7, 8, 9}" for i
    using that by (auto simp: block_fits_def str_nat_digit one_block_sd_def)
  have "list_all (block_fits one_block_sd 4 1) [0, 1, 2, 3, 4, 5, 6, 7, 8, 9]"
    using b0 bi by simp
  moreover have "[0..<10] = [0, 1, 2, 3, 4, 5, 6, 7, 8, 9::nat]" by (simp add: upt_rec)
  moreover have "proj_ok one_block_sd ''model.diffusion_model.img_in.weight''
      ''model.diffusion_model.img_in.bias'' (1 * 4) 4"
    by (simp add: proj_ok_def one_block_sd_def)
  moreover have "proj_ok one_block_sd ''model.diffusion_model.proj_out.weight''
      ''model.diffusion_model.proj_out.bias'' 4 (1 * 4)"
    by (simp add: proj_ok_def one_block_sd_def)
  moreover have "embedder_fits one_block_sd 1"
    by (simp add: embedder_fits_def two_layers_fit_def one_block_sd_def bias_fits_def)
  moreover have "norm_out_fits one_block_sd 4 1"
    by (simp add: norm_out_fits_def one_block_sd_def)
  ultimately show ?thesis unfolding weights_fit_def by (simp only: simp_thms)
qed

lemma run_blocks_skip:
  assumes "\<And>i. i \<in> set ixs \<Longrightarrow>
     sd (''model.diffusion_model.transformer_blocks.'' @ str_nat i @ ''.img_mod.1.weight'') = None"
  shows "run_blocks ac x ctx temb sd dev dt ixs = Inr x"
  using assms
proof (induction ixs)
  case Nil
  show ?case by simp
next
  case (Cons i ixs)
  have a: "apply_transformer_block ac x ctx temb i sd dev dt = Inr x"
    by (rule apply_transformer_block_skips) (rule Cons.prems, simp)
  have b: "run_blocks ac x ctx temb sd dev dt ixs = Inr x"
    by (rule Cons.IH) (rule Cons.prems, simp)
  show ?case by (simp only: run_blocks.simps a b rbind_simps)
qed

lemma img_in_only_raises:
  "run_transformer ac (Tensor BFloat16 [1, 1, 2, 2] [1, 1, 1, 1]) (Tensor Float32 [1] [0])
     ctx img_in_only_sd n = Inl RuntimeError"
proof -
  obtain e where e: "sinusoidal_embedding (Tensor Float32 [1] [0]) BFloat16 = Inr e"
    using sinusoidal_embedding_ok[of "Tensor Float32 [1] [0]" 1 BFloat16]
    by (auto simp del: One_nat_def)
  have inp: "input_projection ac (Tensor BFloat16 [1, 1, 4] [1, 1, 1, 1]) img_in_only_sd dev
      BFloat16 = Inr (Tensor BFloat16 [1, 1, 2] [1, 1])" for dev
    by (simp add: input_projection_def img_in_only_sd_def F_linear_def autocast_to_def
        to_device_def rows_of_def dot_def Let_def upt_rec)
  have emb: "timestep_embedder ac e img_in_only_sd dev BFloat16 = Inr e" for dev
    by (rule timestep_embedder_absent) (simp add: img_in_only_sd_def)
  have blocks: "run_blocks ac x ctx e img_in_only_sd dev BFloat16 [0..<blocks_to_run n] = Inr x"
    for x dev
    by (rule run_blocks_skip) (simp add: img_in_only_sd_def)
  have out: "output_projection ac x e img_in_only_sd dev BFloat16 = Inr x" for x dev
    by (simp add: output_projection_def img_in_only_sd_def rbind_simps)
  have un: "unpatchify (Tensor BFloat16 [1, 1, 2] [1, 1]) 1 1 2 2 = Inl RuntimeError"
    by (simp add: unpatchify_def reshape_def rbind_simps)
  have pad: "(2 - (2::nat) mod 2) mod 2 = 0" by simp
  show ?thesis
    unfolding run_transformer_def Let_def
    by (simp only: tensor.sel list.case pad less_irrefl simp_thms if_False rbind_simps
      one_block_patchify inp e emb blocks out un)
qed

section \<open>The shape of the result of the transformer\<close>

text \<open>
  C8. \<open>run_transformer\<close> keeps the shape of the latent. For a latent of shape
  \<open>[B, C, H, W]\<close> the height and the width are padded to even values \<open>h\<close> and \<open>w\<close>, the
  latent is patchified to \<open>[B, (h div 2) * (w div 2), C * 4]\<close>, and the call is the chain
  of the input projection, the timestep embedding, the blocks, the output projection, the
  unpatchify and the crop. Every tensor it returns has shape \<open>[B, C, H, W]\<close>, whatever the
  state dict holds. It does return one when the timestep has one dimension, of size 1 or
  \<open>B\<close>, the dtype of the latent is one the matrix products accept, and every weight that
  is present fits: \<open>img_in\<close> maps \<open>C * 4\<close> to a width \<open>D\<close>, \<open>proj_out\<close> maps \<open>D\<close> back to
  \<open>C * 4\<close>, the timestep embedder has both its weights and ends at a width \<open>E\<close>, the
  modulations of the first ten blocks and of \<open>norm_out\<close> map \<open>E\<close> to \<open>6 * D\<close> and \<open>2 * D\<close>,
  and the MLP of a block has both its weights and maps \<open>D\<close> to \<open>D\<close>. That the two
  projections map from and to \<open>C * 4\<close> is not enough: with an \<open>img_in\<close> of shape \<open>[2, 4]\<close>
  and no \<open>proj_out\<close> the unpatchify raises (\<open>run_transformer_raises_on_fitting_projections\<close>).
\<close>

theorem run_transformer_preserves_shape:
  assumes "shape latent = [B, C, H, W]"
  shows "(\<exists>x h w. even h \<and> even w \<and> H \<le> h \<and> W \<le> w \<and>
            shape x = [B, (h div 2) * (w div 2), C * 4] \<and>
            run_transformer ac latent timestep ctx sd n =
              rbind (input_projection ac x sd (tensor_device latent) BFloat16) (\<lambda>x.
              rbind (sinusoidal_embedding timestep BFloat16) (\<lambda>emb.
              rbind (timestep_embedder ac emb sd (tensor_device latent) BFloat16) (\<lambda>temb.
              rbind (run_blocks ac x ctx temb sd (tensor_device latent) BFloat16
                       [0..<blocks_to_run n]) (\<lambda>x.
              rbind (output_projection ac x temb sd (tensor_device latent) BFloat16) (\<lambda>x.
              rbind (unpatchify x B C h w) (\<lambda>x.
              if h \<noteq> H \<or> w \<noteq> W then crop4 x H W else Inr x))))))) \<and>
         (\<forall>y. run_transformer ac latent timestep ctx sd n = Inr y \<longrightarrow> shape y = [B, C, H, W]) \<and>
         (shape timestep = [T] \<and> (T = 1 \<or> T = B) \<and> dtype_fits ac (dtype_of latent) \<and>
          weights_fit sd C D E \<longrightarrow>
            (\<exists>y. run_transformer ac latent timestep ctx sd n = Inr y \<and> shape y = [B, C, H, W]))"
proof (intro conjI allI impI)
  show "\<exists>x h w. even h \<and> even w \<and> H \<le> h \<and> W \<le> w \<and>
            shape x = [B, (h div 2) * (w div 2), C * 4] \<and>
            run_transformer ac latent timestep ctx sd n =
              rbind (input_projection ac x sd (tensor_device latent) BFloat16) (\<lambda>x.
              rbind (sinusoidal_embedding timestep BFloat16) (\<lambda>emb.
              rbind (timestep_embedder ac emb sd (tensor_device latent) BFloat16) (\<lambda>temb.
              rbind (run_blocks ac x ctx temb sd (tensor_device latent) BFloat16
                       [0..<blocks_to_run n]) (\<lambda>x.
              rbind (output_projection ac x temb sd (tensor_device latent) BFloat16) (\<lambda>x.
              rbind (unpatchify x B C h w) (\<lambda>x.
              if h \<noteq> H \<or> w \<noteq> W then crop4 x H W else Inr x))))))"
    using run_transformer_front[OF assms, of ac timestep ctx sd n]
    by (elim exE conjE) (intro exI conjI)
next
  fix y
  assume "run_transformer ac latent timestep ctx sd n = Inr y"
  with assms show "shape y = [B, C, H, W]" by (rule run_transformer_shape)
next
  assume h: "shape timestep = [T] \<and> (T = 1 \<or> T = B) \<and> dtype_fits ac (dtype_of latent) \<and>
          weights_fit sd C D E"
  have "\<exists>y. run_transformer ac latent timestep ctx sd n = Inr y"
  proof (rule run_transformer_returns[OF assms])
    show "shape timestep = [T]" using h by (elim conjE)
    show "T = 1 \<or> T = B" using h by (elim conjE)
    show "dtype_fits ac (dtype_of latent)" using h by (elim conjE)
    show "weights_fit sd C D E" using h by (elim conjE)
  qed
  then obtain y where y: "run_transformer ac latent timestep ctx sd n = Inr y" ..
  from assms y have "shape y = [B, C, H, W]" by (rule run_transformer_shape)
  with y show "\<exists>y. run_transformer ac latent timestep ctx sd n = Inr y \<and> shape y = [B, C, H, W]"
    by (intro exI conjI)
qed

theorem run_transformer_preserves_shape_witness:
  "shape (Tensor BFloat16 [1, 1, 2, 2] [1, 1, 1, 1]) = [1, 1, 2, 2] \<and>
   shape (Tensor Float32 [1] [0]) = [1] \<and>
   dtype_fits True (dtype_of (Tensor BFloat16 [1, 1, 2, 2] [1, 1, 1, 1])) \<and>
   weights_fit one_block_sd 1 4 1 \<and>
   run_transformer True (Tensor BFloat16 [1, 1, 2, 2] [1, 1, 1, 1]) (Tensor Float32 [1] [0])
     (Tensor BFloat16 [1, 1, 1] [0]) one_block_sd 60 =
     Inr (Tensor Float32 [1, 1, 2, 2] [4, 4, 4, 4]) \<and>
   (\<exists>y. run_transformer True (Tensor BFloat16 [1, 1, 2, 2] [1, 1, 1, 1]) (Tensor Float32 [1] [0])
      (Tensor BFloat16 [1, 1, 1] [0]) one_block_sd 60 = Inr y \<and> shape y = [1, 1, 2, 2])"
  using run_transformer_preserves_shape[where latent = "Tensor BFloat16 [1, 1, 2, 2] [1, 1, 1, 1]"
      and B = 1 and C = 1 and H = 2 and W = 2 and timestep = "Tensor Float32 [1] [0]" and T = 1
      and ac = True and sd = one_block_sd and D = 4 and E = 1
      and ctx = "Tensor BFloat16 [1, 1, 1] [0]" and n = 60]
    one_block_fits one_block_run[of "Tensor BFloat16 [1, 1, 1] [0]"]
  by (simp add: dtype_fits_def)

theorem run_transformer_raises_on_fitting_projections:
  "shape (Tensor BFloat16 [1, 1, 2, 2] [1, 1, 1, 1]) = [1, 1, 2, 2] \<and>
   projections_consistent img_in_only_sd 1 \<and>
   run_transformer True (Tensor BFloat16 [1, 1, 2, 2] [1, 1, 1, 1]) (Tensor Float32 [1] [0])
     (Tensor BFloat16 [1, 1, 1] [0]) img_in_only_sd 60 = Inl RuntimeError"
  using img_in_only_raises[of True "Tensor BFloat16 [1, 1, 1] [0]" 60]
  by (simp add: projections_consistent_def img_in_only_sd_def)

section \<open>The transformer block and the context\<close>

text \<open>
  C1. \<open>apply_transformer_block\<close> does not read its \<open>context\<close> argument: two calls that
  differ only in the context tensor (same \<open>x\<close>, timestep embedding, block index, state
  dict, device and dtype, inside autocast or outside) return the same tensor, or raise the
  same exception. The block is the modulation, two layer norms, two gates and the MLP; no
  attention is computed.
\<close>

theorem apply_transformer_block_ignores_context:
  "apply_transformer_block autocast x context1 timestep_emb block_idx transformer_sd dev dt =
   apply_transformer_block autocast x context2 timestep_emb block_idx transformer_sd dev dt"
  by (simp add: apply_transformer_block_def)

section \<open>The number of blocks\<close>

text \<open>
  C10. \<open>run_transformer\<close> runs \<open>min(num_blocks, 10)\<close> blocks, never more than ten, so the
  \<open>num_blocks=60\<close> of \<open>generate_with_ai\<close> gives what \<open>num_blocks=10\<close> gives on every input,
  and so does every other value from ten up.
\<close>

theorem run_transformer_at_most_ten_blocks:
  "blocks_to_run n \<le> 10 \<and>
   run_transformer autocast latent timestep context transformer_sd 60 =
     run_transformer autocast latent timestep context transformer_sd 10 \<and>
   run_transformer autocast latent timestep context transformer_sd (max n 10) =
     run_transformer autocast latent timestep context transformer_sd 10"
proof -
  have "blocks_to_run n \<le> 10"
    by (simp add: blocks_to_run_def)
  moreover have "run_transformer autocast latent timestep context transformer_sd 60 =
      run_transformer autocast latent timestep context transformer_sd 10"
    unfolding run_transformer_def blocks_to_run_capped ..
  moreover have "run_transformer autocast latent timestep context transformer_sd (max n 10) =
      run_transformer autocast latent timestep context transformer_sd 10"
    unfolding run_transformer_def blocks_to_run_capped ..
  ultimately show ?thesis by simp
qed

section \<open>Missing weights\<close>

lemma block_raises_without_second_mlp_weight:
  "apply_transformer_block autocast (Tensor BFloat16 [1, 1, 1] [0]) (zeros [1, 77, 3584] BFloat16)
     (Tensor BFloat16 [1, 1] [0]) 0
     [''model.diffusion_model.transformer_blocks.0.img_mod.1.weight'' \<mapsto>
        Tensor BFloat16 [6, 1] [0, 0, 0, 0, 0, 0],
      ''model.diffusion_model.transformer_blocks.0.img_mlp.net.0.proj.weight'' \<mapsto>
        Tensor BFloat16 [1, 1] [0]]
     ''cuda'' BFloat16 = Inl TypeError"
  by (simp add: apply_transformer_block_def str_nat_digit to_device_def rbind_simps
     F_linear_def F_silu_def tmap_def silu_def chunk_def chunk_sizes_def slice_last_def
     F_layer_norm_def norm_row_def modulate_def gated_add_def unsqueeze1_def tmul_def tadd_def
     tbin_def bshape_def lead1_def rows_of_def dot_def Let_def upt_rec autocast_to_def
     result_dtype_def promote_def)

text \<open>
  C9. A weight that is absent is skipped where the code tests for it:
  \<open>apply_transformer_block\<close> returns \<open>x\<close> when the block has no \<open>img_mod.1.weight\<close>
  (\<open>apply_transformer_block_skips\<close>), and every stage of \<open>run_transformer\<close> tests its
  first weight. The second weight of a stage is used without a test. With
  \<open>timestep_embedder.linear_1.weight\<close> in the state dict and \<open>linear_2.weight\<close> absent,
  \<open>run_transformer\<close> raises AttributeError (\<open>t_emb_w2\<close> is \<open>None\<close>), and a block with
  \<open>img_mlp.net.0.proj.weight\<close> but no \<open>img_mlp.net.2.weight\<close> raises TypeError: for these
  state dicts a missing key does raise.
\<close>

theorem run_transformer_raises_without_linear_2:
  "run_transformer autocast (Tensor BFloat16 [1, 16, 2, 2] (replicate 64 0))
     (Tensor Float32 [1] [1000]) (zeros [1, 77, 3584] BFloat16)
     [''model.diffusion_model.time_text_embed.timestep_embedder.linear_1.weight'' \<mapsto>
        Tensor BFloat16 [1, 256] (replicate 256 0)] 60 = Inl AttributeError"
proof (rule run_transformer_missing_linear_2)
  show "shape (Tensor BFloat16 [1, 16, 2, 2] (replicate 64 0)) = [1, 16, 2, 2]" by simp
  show "shape (Tensor Float32 [1] [1000]) = [1]" by simp
  show "[''model.diffusion_model.time_text_embed.timestep_embedder.linear_1.weight'' \<mapsto>
        Tensor BFloat16 [1, 256] (replicate 256 0)] ''model.diffusion_model.img_in.weight'' = None"
    by simp
  show "[''model.diffusion_model.time_text_embed.timestep_embedder.linear_1.weight'' \<mapsto>
        Tensor BFloat16 [1, 256] (replicate 256 0)]
        ''model.diffusion_model.time_text_embed.timestep_embedder.linear_1.weight'' =
        Some (Tensor BFloat16 [1, 256] (replicate 256 0))" by simp
  show "[''model.diffusion_model.time_text_embed.timestep_embedder.linear_1.weight'' \<mapsto>
        Tensor BFloat16 [1, 256] (replicate 256 0)]
        ''model.diffusion_model.time_text_embed.timestep_embedder.linear_2.weight'' = None" by simp
qed

section \<open>The two Euler loops\<close>

lemma rows_of_map: "rows_of n k (map g xs) = map (map g) (rows_of n k xs)"
  by (simp add: rows_of_def take_map drop_map)

lemma bc_map_right:
  "bc f sa xa sb (map g xb) = bc (\<lambda>a b. f a (g b)) sa xa sb xb"
proof (induction sa arbitrary: sb xa xb)
  case Nil
  show ?case by (cases sb) (simp_all add: take_map zip_map2 split_def)
next
  case (Cons da sa)
  show ?case
  proof (cases sb)
    case Nil
    then show ?thesis by simp
  next
    case (Cons db sb')
    show ?thesis
      unfolding Cons bc.simps rows_of_map
      by (simp add: zip_map2 split_def comp_def Cons.IH take_map)
  qed
qed

lemma tsub_neg: "tsub x (tmap uminus a) = tadd x a"
  by (simp add: tsub_def tadd_def tbin_def bc_map_right result_dtype_def cong: option.case_cong)

lemma euler_step_eq:
  "tadd x (tmap (\<lambda>e. e * (- (s' - s))) v) = tsub x (tmap (\<lambda>e. e * (s - s')) (tmap uminus v))"
proof -
  have "tmap (\<lambda>e. e * (s - s')) (tmap uminus v) = tmap uminus (tmap (\<lambda>e. e * (- (s' - s))) v)"
    by (simp add: tmap_def)
  then show ?thesis by (simp only: tsub_neg)
qed

lemma euler_sample_loop_negated:
  "euler_sample_loop model_fn x sigmas context attention_mask ixs =
   inline_euler_loop (negated model_fn context attention_mask) x sigmas ixs"
proof (induction ixs arbitrary: x)
  case Nil
  show ?case by simp
next
  case (Cons i ixs)
  show ?case
    by (simp only: euler_sample_loop.simps inline_euler_loop.simps Let_def negated_def
        rbind_assoc rbind_simps euler_step_eq Cons.IH)
qed

text \<open>
  C5. The standalone \<open>euler_sample\<close> and the loop inside \<open>generate_with_ai\<close> are not the
  same iteration: \<open>euler_sample\<close> takes \<open>dt = sigma_next - sigma\<close> and adds \<open>v * (-dt)\<close>, that
  is \<open>v * (sigma - sigma_next)\<close>, where the inline loop subtracts \<open>v * (sigma - sigma_next)\<close>.
  On every model function, latent, context and schedule, \<open>euler_sample\<close> is the inline
  loop run on the model with the sign of its velocity reversed. With the same model the
  two differ: for a model of constant velocity 1, a latent 0 and the schedule \<open>[1, 0]\<close>
  the first gives 1 and the second -1 (\<open>euler_sample_differs_from_inline_loop\<close>).
\<close>

theorem euler_sample_is_inline_loop_of_negated_model:
  "euler_sample model_fn x sigmas context attention_mask cfg_scale steps =
   inline_euler_loop (negated model_fn context attention_mask) x sigmas [0..<length sigmas - 1]"
  unfolding euler_sample_def by (rule euler_sample_loop_negated)

theorem euler_sample_differs_from_inline_loop:
  "euler_sample (\<lambda>x sigma (c::unit) (m::unit). Inr (Tensor BFloat16 [1] [1]))
     (Tensor BFloat16 [1] [0]) [1, 0] () () 7 20
     = Inr (Tensor BFloat16 [1] [1]) \<and>
   inline_euler_loop (\<lambda>x sigma. (\<lambda>x sigma (c::unit) (m::unit). Inr (Tensor BFloat16 [1] [1])) x sigma () ())
     (Tensor BFloat16 [1] [0]) [1, 0] [0..<length [1, 0 :: real] - 1]
     = Inr (Tensor BFloat16 [1] [-1])"
  by (simp add: euler_sample_def rbind_simps tadd_def tsub_def tbin_def bshape_def lead1_def
      rows_of_def Let_def result_dtype_def promote_def)

section \<open>The sampler of generate\_with\_ai\<close>

lemma linspace_schedule:
  assumes "0 \<le> steps"
  shows "linspace 1 0 (steps + 1) = Inr (map (sigma_schedule (nat steps)) [0..<nat steps + 1])"
proof (cases "steps = 0")
  case True
  then show ?thesis by (simp add: linspace_def sigma_schedule_def)
next
  case False
  with assms have "nat (steps + 1) = nat steps + 1" "nat (steps + 1) - 1 = nat steps" by simp_all
  with assms False show ?thesis
    by (simp add: linspace_def sigma_schedule_def field_simps)
qed

lemma inline_euler_loop_snoc:
  "inline_euler_loop model latent sigmas (ixs @ [i]) =
   rbind (inline_euler_loop model latent sigmas ixs) (\<lambda>latent.
   rbind (model latent (sigmas ! i)) (\<lambda>v.
   tsub latent (tmap (\<lambda>e. e * (sigmas ! i - sigmas ! (i + 1))) v)))"
proof (induction ixs arbitrary: latent)
  case Nil
  show ?case
    by (simp add: rbind_simps Let_def) (simp add: rbind_def split: sum.splits)
next
  case (Cons j ixs)
  show ?case
    by (simp only: append_Cons inline_euler_loop.simps Let_def Cons.IH rbind_assoc)
qed

lemma schedule_nth:
  "i \<le> n \<Longrightarrow> map (sigma_schedule n) [0..<n + 1] ! i = sigma_schedule n i"
  using nth_map_upt[of i "n + 1" 0 "sigma_schedule n"] by simp

lemma inline_euler_loop_schedule:
  assumes "k \<le> n"
  shows "inline_euler_loop model latent (map (sigma_schedule n) [0..<n + 1]) [0..<k] =
     euler_flow_matching model n k latent"
  using assms
proof (induction k)
  case 0
  show ?case by simp
next
  case (Suc k)
  then have k: "k \<le> n" "k + 1 \<le> n" by simp_all
  have ih: "inline_euler_loop model latent (map (sigma_schedule n) [0..<n + 1]) [0..<k] =
     euler_flow_matching model n k latent"
    by (rule Suc.IH) (rule k(1))
  have "[0..<Suc k] = [0..<k] @ [k]" by simp
  then show ?case
    by (simp only: inline_euler_loop_snoc ih schedule_nth[OF k(1)] schedule_nth[OF k(2)]
        euler_flow_matching.simps Suc_eq_plus1) simp
qed


text \<open>
  C4. \<open>generate_with_ai\<close> is Euler flow matching. For \<open>steps \<ge> 0\<close> the schedule of
  \<open>torch.linspace(1.0, 0.0, steps + 1)\<close> is the \<open>steps + 1\<close> equally spaced values
  \<open>1 - i / steps\<close>, the loop is the update
  \<open>latent <- latent - v * (sigma_i - sigma_{i+1})\<close> for \<open>i\<close> from 0 to \<open>steps - 1\<close> with
  \<open>v = run_transformer(latent, sigma_i * 1000, context)\<close>, and the final latent goes
  through \<open>latent_to_image\<close>.
\<close>

theorem generate_with_ai_is_euler_flow_matching:
  assumes "0 \<le> steps"
  shows "linspace 1 0 (steps + 1) = Inr (map (sigma_schedule (nat steps)) [0..<nat steps + 1]) \<and>
    generate_with_ai R py_hash g prompt width height transformer_sd vae_sd text_encoder_sd
       steps cfg_scale seed =
     rbind (case seed of None \<Rightarrow> Inr g | Some s \<Rightarrow> manual_seed R s) (\<lambda>g.
     rbind (randn R g [1, LATENT_CHANNELS, height div VAE_SCALE_FACTOR, width div VAE_SCALE_FACTOR]
              BFloat16)
       (\<lambda>(latent, g).
     rbind (prompt_context R py_hash prompt) (\<lambda>(context, g).
     rbind (case seed of None \<Rightarrow> Inr g | Some s \<Rightarrow> manual_seed R s) (\<lambda>g.
     rbind (euler_flow_matching
              (\<lambda>latent sigma.
                 run_transformer True latent (Tensor Float32 [1] [sigma * 1000]) context transformer_sd 60)
              (nat steps) (nat steps) latent) (\<lambda>latent.
     rbind (latent_to_image latent vae_sd) (\<lambda>image.
     Inr (image, g)))))))"
proof -
  have ls: "linspace 1 0 (steps + 1) = Inr (map (sigma_schedule (nat steps)) [0..<nat steps + 1])"
    by (rule linspace_schedule[OF assms])
  have len: "length (map (sigma_schedule (nat steps)) [0..<nat steps + 1]) - 1 = nat steps"
    by simp
  have loop: "\<And>ctx latent.
      inline_euler_loop (velocity ctx transformer_sd) latent
        (map (sigma_schedule (nat steps)) [0..<nat steps + 1]) [0..<nat steps] =
      euler_flow_matching
        (\<lambda>latent sigma.
           run_transformer True latent (Tensor Float32 [1] [sigma * 1000]) ctx transformer_sd 60)
        (nat steps) (nat steps) latent"
  proof -
    fix ctx latent
    have "velocity ctx transformer_sd =
        (\<lambda>latent sigma.
           run_transformer True latent (Tensor Float32 [1] [sigma * 1000]) ctx transformer_sd 60)"
      by (intro ext) (simp add: velocity_def)
    then show "inline_euler_loop (velocity ctx transformer_sd) latent
        (map (sigma_schedule (nat steps)) [0..<nat steps + 1]) [0..<nat steps] =
      euler_flow_matching
        (\<lambda>latent sigma.
           run_transformer True latent (Tensor Float32 [1] [sigma * 1000]) ctx transformer_sd 60)
        (nat steps) (nat steps) latent"
      using inline_euler_loop_schedule[of "nat steps" "nat steps"] by simp
  qed
  have "generate_with_ai R py_hash g prompt width height transformer_sd vae_sd text_encoder_sd
       steps cfg_scale seed =
     rbind (case seed of None \<Rightarrow> Inr g | Some s \<Rightarrow> manual_seed R s) (\<lambda>g.
     rbind (randn R g [1, LATENT_CHANNELS, height div VAE_SCALE_FACTOR, width div VAE_SCALE_FACTOR]
              BFloat16)
       (\<lambda>(latent, g).
     rbind (prompt_context R py_hash prompt) (\<lambda>(context, g).
     rbind (case seed of None \<Rightarrow> Inr g | Some s \<Rightarrow> manual_seed R s) (\<lambda>g.
     rbind (euler_flow_matching
              (\<lambda>latent sigma.
                 run_transformer True latent (Tensor Float32 [1] [sigma * 1000]) context transformer_sd 60)
              (nat steps) (nat steps) latent) (\<lambda>latent.
     rbind (latent_to_image latent vae_sd) (\<lambda>image.
     Inr (image, g)))))))"
    unfolding generate_with_ai_def Let_def ls rbind_simps len loop ..
  with ls show ?thesis by (rule conjI)
qed

theorem generate_with_ai_is_euler_flow_matching_witness:
  "(0::int) \<le> 2 \<and>
   linspace 1 0 (2 + 1) = Inr [1, 1 / 2, 0] \<and>
   generate_with_ai zero_rng (\<lambda>s. int (length s)) 0 ''moon'' 16 16 Map.empty Map.empty None
       2 7 (Some 42) =
     rbind (case Some 42 of None \<Rightarrow> Inr 0 | Some s \<Rightarrow> manual_seed zero_rng s) (\<lambda>g.
     rbind (randn zero_rng g [1, LATENT_CHANNELS, 16 div VAE_SCALE_FACTOR, 16 div VAE_SCALE_FACTOR]
              BFloat16)
       (\<lambda>(latent, g).
     rbind (prompt_context zero_rng (\<lambda>s. int (length s)) ''moon'') (\<lambda>(context, g).
     rbind (case Some 42 of None \<Rightarrow> Inr g | Some s \<Rightarrow> manual_seed zero_rng s) (\<lambda>g.
     rbind (euler_flow_matching
              (\<lambda>latent sigma.
                 run_transformer True latent (Tensor Float32 [1] [sigma * 1000]) context Map.empty 60)
              (nat 2) (nat 2) latent) (\<lambda>latent.
     rbind (latent_to_image latent Map.empty) (\<lambda>image.
     Inr (image, g)))))))"
proof (intro conjI)
  show le: "(0::int) \<le> 2" by simp
  from generate_with_ai_is_euler_flow_matching[OF le]
  have "linspace 1 0 (2 + 1) = Inr (map (sigma_schedule (nat 2)) [0..<nat 2 + 1])"
    by (rule conjunct1)
  then show "linspace 1 0 (2 + 1) = Inr [1, 1 / 2, 0]"
    by (simp add: sigma_schedule_def upt_rec)
  from generate_with_ai_is_euler_flow_matching[OF le]
  show "generate_with_ai zero_rng (\<lambda>s. int (length s)) 0 ''moon'' 16 16 Map.empty Map.empty None
       2 7 (Some 42) =
     rbind (case Some 42 of None \<Rightarrow> Inr 0 | Some s \<Rightarrow> manual_seed zero_rng s) (\<lambda>g.
     rbind (randn zero_rng g [1, LATENT_CHANNELS, 16 div VAE_SCALE_FACTOR, 16 div VAE_SCALE_FACTOR]
              BFloat16)
       (\<lambda>(latent, g).
     rbind (prompt_context zero_rng (\<lambda>s. int (length s)) ''moon'') (\<lambda>(context, g).
     rbind (case Some 42 of None \<Rightarrow> Inr g | Some s \<Rightarrow> manual_seed zero_rng s) (\<lambda>g.
     rbind (euler_flow_matching
              (\<lambda>latent sigma.
                 run_transformer True latent (Tensor Float32 [1] [sigma * 1000]) context Map.empty 60)
              (nat 2) (nat 2) latent) (\<lambda>latent.
     rbind (latent_to_image latent Map.empty) (\<lambda>image.
     Inr (image, g)))))))"
    by (rule conjunct2)
qed

section \<open>The timestep embedding\<close>

lemma rows_of_one: "length xs = n \<Longrightarrow> rows_of n (Suc 0) xs = map (\<lambda>x. [x]) xs"
  by (auto simp: rows_of_def list_eq_iff_nth_eq take_Suc_conv_app_nth)

lemma rows_of_Cons:
  assumes "length r = k"
  shows "rows_of (Suc n) k (r @ rest) = r # rows_of n k rest"
proof -
  have "[0..<Suc n] = 0 # map Suc [0..<n]"
    by (simp add: upt_conv_Cons map_Suc_upt del: upt_Suc)
  then show ?thesis
    using assms by (simp add: rows_of_def comp_def del: upt_Suc)
qed

lemma rows_of_concat:
  assumes "\<And>r. r \<in> set xss \<Longrightarrow> length r = k"
  shows "rows_of (length xss) k (concat xss) = xss"
  using assms
proof (induction xss)
  case Nil
  show ?case by (simp add: rows_of_def)
next
  case (Cons r xss)
  have lr: "length r = k" by (rule Cons.prems) simp
  have ih: "rows_of (length xss) k (concat xss) = xss"
    by (rule Cons.IH) (simp add: Cons.prems)
  show ?case
    using rows_of_Cons[OF lr, of "length xss" "concat xss"] ih by simp
qed

lemma concat_singletons: "concat (map (\<lambda>y. [g y]) fs) = map g fs"
  by (induction fs) simp_all

lemma bc_scalar_row:
  assumes "length fs = K"
  shows "bc f [Suc 0] [t] [K] fs = map (f t) fs"
proof (cases "K = Suc 0")
  case True
  with assms obtain y where "fs = [y]" by (cases fs) simp_all
  with True show ?thesis by (simp add: rows_of_def)
next
  case False
  then show ?thesis
    by (simp add: rows_of_one[OF assms] comp_def concat_singletons)
qed

lemma bc_column_row:
  assumes "length ts = T" "length fs = K"
  shows "bc f [T, Suc 0] ts [Suc 0, K] fs = concat (map (\<lambda>t. map (f t) fs) ts)"
proof (cases "T = Suc 0")
  case True
  with assms obtain t where "ts = [t]" by (cases ts) simp_all
  with True show ?thesis
    using bc_scalar_row[OF assms(2), of f t] assms(2)
    by (simp add: rows_of_def del: bc.simps
        add: bc.simps(2)[of f "Suc 0" "[Suc 0]" "[t]" "Suc 0" "[K]" fs])
next
  case False
  then show ?thesis
    using assms(2)
    by (simp del: bc.simps add: bc.simps(2)[of f T "[Suc 0]" ts "Suc 0" "[K]" fs]
        rows_of_one[OF assms(1)] comp_def bc_scalar_row[OF assms(2)])
qed

lemma concat_map2_append:
  "concat (map2 (@) (map g ts) (map h ts)) = concat (map (\<lambda>t. g t @ h t) ts)"
  by (induction ts) simp_all

lemma sinusoidal_embedding_closed_form:
  assumes "shape timestep = [T]" "length (vals timestep) = T"
  shows "sinusoidal_embedding timestep dt =
     Inr (Tensor dt [T, 256] (concat (map spec_timestep_embedding (vals timestep))))"
proof -
  define fs where "fs = map (\<lambda>k. exp (real k * (- (ln 10000 / real (128 - 1))))) [0..<128]"
  have lfs: "length fs = 128" by (simp add: fs_def)
  have freqs: "tmap exp (tmap (\<lambda>v. v * (- (ln 10000 / real (128 - 1)))) (arange 128)) =
      Tensor Float32 [128] fs"
    by (simp add: tmap_def arange_def fs_def comp_def)
  have u: "unsqueeze1 timestep = Inr (Tensor (dtype_of timestep) [T, 1] (vals timestep))"
    using assms by (simp add: unsqueeze1_def)
  define g where "g = (\<lambda>t. map ((*) t) fs)"
  define V where "V = concat (map g (vals timestep))"
  define dt0 where "dt0 = result_dtype (Tensor (dtype_of timestep) [T, 1] (vals timestep))
      (unsqueeze0 (Tensor Float32 [128] fs))"
  have m: "tmul (Tensor (dtype_of timestep) [T, 1] (vals timestep))
       (unsqueeze0 (Tensor Float32 [128] fs)) = Inr (Tensor dt0 [T, 128] V)"
    unfolding tmul_def tbin_def dt0_def V_def g_def
    using bc_column_row[OF assms(2) lfs, of "(*)"]
    by (simp add: unsqueeze0_def bshape_def lead1_def del: bc.simps)
  have "rows_of (length (map g (vals timestep))) 128 (concat (map g (vals timestep))) =
      map g (vals timestep)"
    by (rule rows_of_concat) (auto simp: lfs g_def)
  then have rows: "rows_of T 128 V = map g (vals timestep)"
    by (simp add: V_def assms(2))
  have c: "cat_last (tmap sin (Tensor dt0 [T, 128] V)) (tmap cos (Tensor dt0 [T, 128] V)) =
      Inr (Tensor dt0 [T, 256]
        (concat (map (\<lambda>t. map sin (g t) @ map cos (g t)) (vals timestep))))"
    using concat_map2_append[of "\<lambda>t. map sin (g t)" "vals timestep" "\<lambda>t. map cos (g t)"]
    by (simp add: cat_last_def tmap_def promote_def rows_of_map rows comp_def)
  have s: "(\<lambda>t. map sin (g t) @ map cos (g t)) = spec_timestep_embedding"
    by (intro ext)
       (simp add: spec_timestep_embedding_def spec_frequency_def fs_def g_def comp_def)
  show ?thesis
    unfolding sinusoidal_embedding_def Let_def freqs
    by (simp only: u m c rbind_simps s) (simp add: to_dtype_def)
qed

lemma spec_timestep_embedding_length: "length (spec_timestep_embedding t) = 256"
  by (simp add: spec_timestep_embedding_def)

lemma spec_timestep_embedding_zero:
  "spec_timestep_embedding 0 = replicate 128 0 @ replicate 128 1"
  by (simp add: spec_timestep_embedding_def map_replicate_const)



section \<open>The context of generate\_with\_ai\<close>

lemma seed_of_hash_ok:
  "manual_seed R (hsh mod 2 ^ 32) = Inr (seed_gen R (nat (hsh mod 2 ^ 32)))"
proof -
  define m where "m = hsh mod 2 ^ 32"
  have "0 \<le> m" "m < 2 ^ 32" by (simp_all add: m_def)
  then have "- (2 ^ 63) \<le> m" "m \<le> 2 ^ 64 - 1" "\<not> m < 0" by simp_all
  then have "manual_seed R m = Inr (seed_gen R (nat m))"
    unfolding manual_seed_def by (simp only: simp_thms if_True if_False)
  then show ?thesis by (simp only: m_def)
qed

lemma prompt_context_value:
  "prompt_context R py_hash prompt =
     Inr (Tensor BFloat16 [1, 77, 3584]
            (map (\<lambda>v. v * (1 / 10))
               (fst (normal_draw R (seed_gen R (nat (py_hash prompt mod 2 ^ 32))) (77 * 3584)))),
          snd (normal_draw R (seed_gen R (nat (py_hash prompt mod 2 ^ 32))) (77 * 3584)))"
  unfolding prompt_context_def Let_def seed_of_hash_ok
  by (simp add: rbind_simps randn_like_def zeros_def tmap_def split_def Let_def)

lemma prompt_context_hash:
  "py_hash p1 mod 2 ^ 32 = py_hash p2 mod 2 ^ 32 \<Longrightarrow>
   prompt_context R py_hash p1 = prompt_context R py_hash p2"
  by (simp only: prompt_context_value)



section \<open>The VAE decoder\<close>

lemma rows_of_length: "length (rows_of n k xs) = n"
  by (simp add: rows_of_def)

lemma F_interpolate_ok:
  assumes "shape z = [b, c, h, w]" "0 < c" "0 < h" "0 < w"
  shows "\<exists>img. F_interpolate z = Inr img \<and> shape img = [b, c, 8 * h, 8 * w] \<and>
           dtype_of img = dtype_of z"
  using assms by (simp add: F_interpolate_def)

lemma take_channels_ok:
  assumes "shape img = [b, c, h, w]"
  shows "\<exists>y. take_channels img k = Inr y \<and> shape y = [b, min k c, h, w] \<and>
           dtype_of y = dtype_of img"
  using assms by (simp add: take_channels_def)

lemma F_conv2d_ok:
  assumes "shape img = [b, c, h, w]" "shape wt = [out, c, 3, 3]" "shape bs = [out]"
    and "dtype_of wt = dtype_of img" "dtype_of bs = dtype_of img" "0 < h" "0 < w"
  shows "\<exists>y. F_conv2d img wt bs = Inr y \<and> shape y = [b, out, h, w]"
  using assms by (simp add: F_conv2d_def Let_def)

lemma decode_vae_simple_same_conv_out:
  assumes "vae_sd1 ''decoder.conv_out.weight'' = vae_sd2 ''decoder.conv_out.weight''"
    and "vae_sd1 ''decoder.conv_out.bias'' = vae_sd2 ''decoder.conv_out.bias''"
  shows "decode_vae_simple latent vae_sd1 = decode_vae_simple latent vae_sd2"
  unfolding decode_vae_simple_def Let_def assms ..

lemma decode_vae_simple_range:
  assumes "decode_vae_simple latent vae_sd = Inr y"
  shows "\<forall>v \<in> set (vals y). 0 \<le> v \<and> v \<le> 1"
proof -
  from assms obtain img where "y = tmap (\<lambda>v. min 1 (max 0 v)) img"
    unfolding decode_vae_simple_def Let_def
    by (auto simp: rbind_Inr split: list.splits)
  then show ?thesis by auto
qed

lemma decode_vae_simple_fallback:
  assumes "shape latent = [b, c, h, w]" "0 < c" "0 < h" "0 < w"
    and "vae_sd ''decoder.conv_out.weight'' = None"
  shows "\<exists>img y. F_interpolate (tmap (\<lambda>v. v / (13025 / 100000)) latent) = Inr img \<and>
           shape img = [b, c, 8 * h, 8 * w] \<and>
           take_channels img 3 = Inr y \<and> shape y = [b, min 3 c, 8 * h, 8 * w] \<and>
           decode_vae_simple latent vae_sd =
             Inr (tmap (\<lambda>v. min 1 (max 0 v)) (tmap (\<lambda>v. (v + 1) / 2) y))"
proof -
  have sz: "shape (tmap (\<lambda>v. v / (13025 / 100000)) latent) = [b, c, h, w]"
    using assms(1) by simp
  obtain img where img: "F_interpolate (tmap (\<lambda>v. v / (13025 / 100000)) latent) = Inr img"
    "shape img = [b, c, 8 * h, 8 * w]"
    using F_interpolate_ok[OF sz assms(2,3,4)] by (elim exE conjE) (rule that)
  obtain y where y: "take_channels img 3 = Inr y" "shape y = [b, min 3 c, 8 * h, 8 * w]"
    using take_channels_ok[OF img(2), of 3] by (elim exE conjE) (rule that)
  have "decode_vae_simple latent vae_sd =
      Inr (tmap (\<lambda>v. min 1 (max 0 v)) (tmap (\<lambda>v. (v + 1) / 2) y))"
    unfolding decode_vae_simple_def Let_def sz
    by (simp only: list.case img(1) rbind_simps assms(5) option.case y(1))
  with img y show ?thesis by (intro exI conjI)
qed

lemma decode_vae_simple_conv_out:
  assumes "shape latent = [b, c, h, w]" "0 < c" "0 < h" "0 < w"
    and "vae_sd ''decoder.conv_out.weight'' = Some wt" "shape wt = [out, cin, 3, 3]"
    and "vae_sd ''decoder.conv_out.bias'' = Some bs" "shape bs = [out]" "cin \<le> c"
  shows "\<exists>img x y. F_interpolate (tmap (\<lambda>v. v / (13025 / 100000)) latent) = Inr img \<and>
           shape img = [b, c, 8 * h, 8 * w] \<and>
           take_channels img cin = Inr x \<and>
           F_conv2d x (to_device (tensor_device latent) (dtype_of latent) wt)
             (to_device (tensor_device latent) (dtype_of latent) bs) = Inr y \<and>
           shape y = [b, out, 8 * h, 8 * w] \<and>
           decode_vae_simple latent vae_sd =
             Inr (tmap (\<lambda>v. min 1 (max 0 v)) (tmap (\<lambda>v. (v + 1) / 2) y))"
proof -
  let ?z = "tmap (\<lambda>v. v / (13025 / 100000)) latent"
  let ?wt = "to_device (tensor_device latent) (dtype_of latent) wt"
  let ?bs = "to_device (tensor_device latent) (dtype_of latent) bs"
  have sz: "shape ?z = [b, c, h, w]" using assms(1) by simp
  obtain img where img: "F_interpolate ?z = Inr img" "shape img = [b, c, 8 * h, 8 * w]"
    "dtype_of img = dtype_of ?z"
    using F_interpolate_ok[OF sz assms(2,3,4)] by (elim exE conjE) (rule that)
  obtain x where x: "take_channels img cin = Inr x" "shape x = [b, min cin c, 8 * h, 8 * w]"
    "dtype_of x = dtype_of img"
    using take_channels_ok[OF img(2), of cin] by (elim exE conjE) (rule that)
  have sx: "shape x = [b, cin, 8 * h, 8 * w]" using x(2) assms(9) by (simp add: min_def)
  have dx: "dtype_of x = dtype_of latent" using x(3) img(3) by simp
  have "\<exists>y. F_conv2d x ?wt ?bs = Inr y \<and> shape y = [b, out, 8 * h, 8 * w]"
    by (rule F_conv2d_ok[OF sx]) (simp_all add: assms dx)
  then obtain y where y: "F_conv2d x ?wt ?bs = Inr y" "shape y = [b, out, 8 * h, 8 * w]"
    by (elim exE conjE)
  have td: "tensor_device ?z = tensor_device latent" by (simp add: tensor_device_def)
  have lw: "\<not> length (shape ?wt) < 2" "shape ?wt ! 1 = cin" by (simp_all add: assms(6))
  have "decode_vae_simple latent vae_sd =
      Inr (tmap (\<lambda>v. min 1 (max 0 v)) (tmap (\<lambda>v. (v + 1) / 2) y))"
    unfolding decode_vae_simple_def Let_def sz
    by (simp only: list.case img(1) rbind_simps assms(5,7) option.case td dtype_tmap lw if_False
        x(1) y(1))
  with img(1,2) x(1) y show ?thesis by (intro exI conjI)
qed

lemma src_index_first_row: "o' < 8 \<Longrightarrow> nat \<lfloor>src_index o'\<rfloor> = 0"
proof -
  assume "o' < 8"
  then have "(real o' + 1 / 2) / 8 - 1 / 2 < 1" by (simp add: field_simps)
  then have "src_index o' < 1" unfolding src_index_def by simp
  moreover have "0 \<le> src_index o'" by (simp add: src_index_def)
  ultimately have "\<lfloor>src_index o'\<rfloor> = 0" by linarith
  then show ?thesis by simp
qed

lemma interp_plane_single: "interp_plane 1 1 [v] = replicate 64 v"
proof -
  have "map (\<lambda>oy. map (\<lambda>ox.
        let sy = src_index oy; y0 = nat \<lfloor>sy\<rfloor>; y1 = (if y0 < 1 - 1 then y0 + 1 else y0);
            ly = sy - real y0;
            sx = src_index ox; x0 = nat \<lfloor>sx\<rfloor>; x1 = (if x0 < 1 - 1 then x0 + 1 else x0);
            lx = sx - real x0;
            p = (\<lambda>y x. [v] ! (y * 1 + x))
        in (1 - ly) * ((1 - lx) * p y0 x0 + lx * p y0 x1)
           + ly * ((1 - lx) * p y1 x0 + lx * p y1 x1))
        [0..<8 * 1]) [0..<8 * 1] =
      map (\<lambda>oy. map (\<lambda>ox. v) [0..<8 * 1]) [0..<8 * 1]"
  proof (intro map_cong refl)
    fix oy ox :: nat
    assume "oy \<in> set [0..<8 * 1]" "ox \<in> set [0..<8 * 1]"
    then have "oy < 8" "ox < 8" by simp_all
    then have f: "nat \<lfloor>src_index oy\<rfloor> = 0" "nat \<lfloor>src_index ox\<rfloor> = 0"
      by (simp_all add: src_index_first_row)
    show "(let sy = src_index oy; y0 = nat \<lfloor>sy\<rfloor>; y1 = (if y0 < 1 - 1 then y0 + 1 else y0);
            ly = sy - real y0;
            sx = src_index ox; x0 = nat \<lfloor>sx\<rfloor>; x1 = (if x0 < 1 - 1 then x0 + 1 else x0);
            lx = sx - real x0;
            p = (\<lambda>y x. [v] ! (y * 1 + x))
        in (1 - ly) * ((1 - lx) * p y0 x0 + lx * p y0 x1)
           + ly * ((1 - lx) * p y1 x0 + lx * p y1 x1)) = v"
      unfolding Let_def f by (simp add: algebra_simps)
  qed
  then have "interp_plane 1 1 [v] = concat (map (\<lambda>oy. map (\<lambda>ox. v) [0..<8 * 1]) [0..<8 * 1])"
    unfolding interp_plane_def by (rule arg_cong)
  also have "\<dots> = replicate 64 v"
    by (simp add: upt_rec replicate_append_same numeral_eq_Suc)
  finally show ?thesis .
qed

lemma decode_vae_simple_three_pixels:
  assumes "vae_sd ''decoder.conv_out.weight'' = None"
  shows "decode_vae_simple (Tensor BFloat16 [1, 3, 1, 1] [13025 / 100000, 0, - (13025 / 100000)])
     vae_sd =
     Inr (Tensor BFloat16 [1, 3, 8, 8] (replicate 64 1 @ replicate 64 (1 / 2) @ replicate 64 0))"
proof -
  have i: "F_interpolate (Tensor BFloat16 [1, 3, 1, 1] [1, 0, - 1]) =
      Inr (Tensor BFloat16 [1, 3, 8, 8] (replicate 64 1 @ replicate 64 0 @ replicate 64 (- 1)))"
    using interp_plane_single
    by (simp add: F_interpolate_def rows_of_def upt_rec)
  have t: "take_channels
      (Tensor BFloat16 [1, 3, 8, 8] (replicate 64 1 @ replicate 64 0 @ replicate 64 (- 1))) 3 =
      Inr (Tensor BFloat16 [1, 3, 8, 8] (replicate 64 1 @ replicate 64 0 @ replicate 64 (- 1)))"
    by (simp add: take_channels_def rows_of_def)
  have z: "tmap (\<lambda>v. v / (13025 / 100000))
      (Tensor BFloat16 [1, 3, 1, 1] [13025 / 100000, 0, - (13025 / 100000)]) =
      Tensor BFloat16 [1, 3, 1, 1] [1, 0, - 1]"
    by (simp add: tmap_def)
  have f: "tmap (\<lambda>v. min 1 (max 0 v)) (tmap (\<lambda>v. (v + 1) / 2)
      (Tensor BFloat16 [1, 3, 8, 8] (replicate 64 1 @ replicate 64 0 @ replicate 64 (- 1)))) =
      Tensor BFloat16 [1, 3, 8, 8] (replicate 64 1 @ replicate 64 (1 / 2) @ replicate 64 0)"
    by (simp add: tmap_def)
  show ?thesis
    unfolding decode_vae_simple_def Let_def z
    by (simp only: tensor.sel list.case i t f rbind_simps assms option.case)
qed



section \<open>The ComfyUI script\<close>

lemma build_workflow_value:
  "build_workflow py_hash asset_name config seed =
     \<lparr>wf_width = cfg_width config, wf_height = cfg_height config, wf_text = cfg_prompt config,
      wf_seed = (case seed of None \<Rightarrow> py_hash asset_name mod 2 ^ 32 | Some s \<Rightarrow> s)\<rparr>"
  by (simp add: build_workflow_def get_workflow_template_def Let_def)

lemma wait_loop_times_out:
  assumes "\<forall>p \<in> set pre. fst p - start < timeout \<and>
             (\<exists>hist. snd p = Inr hist \<and> find_images prompt_id hist = None)"
    and "\<not> now - start < timeout"
  shows "wait_loop start timeout prompt_id (pre @ (now, reply) # rest) = Some (Inr None)"
  using assms(1)
proof (induction pre)
  case Nil
  show ?case using assms(2) by simp
next
  case (Cons p pre)
  obtain t r where p: "p = (t, r)" by (cases p)
  from Cons.prems p obtain hist where h: "t - start < timeout" "r = Inr hist"
    "find_images prompt_id hist = None"
    by auto
  have "wait_loop start timeout prompt_id (pre @ (now, reply) # rest) = Some (Inr None)"
    by (rule Cons.IH) (simp add: Cons.prems)
  then show ?case by (simp add: p h)
qed

lemma wait_loop_returns:
  assumes "\<exists>p \<in> set ps. \<not> fst p - start < timeout"
  shows "\<exists>r. wait_loop start timeout prompt_id ps = Some r"
  using assms
proof (induction ps)
  case Nil
  then show ?case by simp
next
  case (Cons p ps)
  obtain t r where p: "p = (t, r)" by (cases p)
  show ?case
  proof (cases "t - start < timeout")
    case True
    with Cons.prems p have "\<exists>p \<in> set ps. \<not> fst p - start < timeout" by auto
    then have "\<exists>r. wait_loop start timeout prompt_id ps = Some r" by (rule Cons.IH)
    then show ?thesis
      by (auto simp: p True split: sum.splits option.splits)
  next
    case False
    then show ?thesis by (simp add: p)
  qed
qed

lemma generate_asset_comfyui_True:
  "generate_asset_comfyui py_hash env fs asset_name config seed = Some (True, fs') \<longleftrightarrow>
     (\<exists>img_data.
        fetch_image env (build_workflow py_hash asset_name config seed) = Some (Inr (Some img_data)) \<and>
        mkdir_error env = None \<and> open_error env = None \<and> write_error env = None \<and>
        fs' = fs(join_path env OUTPUT_DIR (cfg_filename config) \<mapsto> img_data))"
  by (auto simp: generate_asset_comfyui_def Let_def split: option.splits sum.splits)

lemma generate_asset_comfyui_False:
  assumes "generate_asset_comfyui py_hash env fs asset_name config seed = Some (False, fs')"
  shows "fs' = fs \<or>
     (\<exists>img_data e k.
        fetch_image env (build_workflow py_hash asset_name config seed) = Some (Inr (Some img_data)) \<and>
        mkdir_error env = None \<and> open_error env = None \<and> write_error env = Some (e, k) \<and>
        fs' = fs(join_path env OUTPUT_DIR (cfg_filename config) \<mapsto> take k img_data))"
  using assms
  by (auto simp: generate_asset_comfyui_def Let_def split: option.splits sum.splits)

lemma generate_asset_comfyui_fails_early:
  assumes "fetch_image env (build_workflow py_hash asset_name config seed) = Some r"
    and "(\<exists>e. r = Inl e) \<or> r = Inr None \<or> mkdir_error env \<noteq> None \<or> open_error env \<noteq> None"
  shows "generate_asset_comfyui py_hash env fs asset_name config seed = Some (False, fs)"
  using assms
  by (auto simp: generate_asset_comfyui_def Let_def split: option.splits sum.splits)

lemma fetch_image_timeout:
  assumes "queue_prompt env flow = Inr prompt_id"
    and "wait_for_completion env prompt_id 300 = Some (Inr None)"
  shows "fetch_image env flow = Some (Inr None)"
  using assms by (simp add: fetch_image_def)

lemma fetch_image_data:
  assumes "fetch_image env flow = Some (Inr (Some img_data))"
  shows "\<exists>prompt_id img_info others fname folder_type.
        queue_prompt env flow = Inr prompt_id \<and>
        wait_for_completion env prompt_id 300 = Some (Inr (Some (img_info # others))) \<and>
        img_info ''filename'' = Some fname \<and> img_info ''type'' = Some folder_type \<and>
        get_image env fname (case img_info ''subfolder'' of None \<Rightarrow> [] | Some sf \<Rightarrow> sf)
          folder_type = Inr img_data"
  using assms
  by (auto simp: fetch_image_def
      split: option.split_asm sum.split_asm list.split_asm)

lemma generate_asset_comfyui_returns:
  assumes "\<exists>p \<in> set (polls env). \<not> fst p - start_time env < 300"
  shows "\<exists>r. generate_asset_comfyui py_hash env fs asset_name config seed = Some r"
proof -
  have w: "\<exists>r. wait_for_completion env prompt_id 300 = Some r" for prompt_id
    unfolding wait_for_completion_def using assms by (rule wait_loop_returns)
  have "\<exists>r. fetch_image env flow = Some r" for flow
  proof (cases "queue_prompt env flow")
    case (Inl e)
    then show ?thesis by (simp add: fetch_image_def)
  next
    case (Inr prompt_id)
    obtain r where "wait_for_completion env prompt_id 300 = Some r" using w by blast
    with Inr show ?thesis
      by (simp add: fetch_image_def split: sum.splits option.splits list.splits)
  qed
  then obtain r where
    "fetch_image env (build_workflow py_hash asset_name config seed) = Some r" by blast
  then show ?thesis
    by (auto simp: generate_asset_comfyui_def Let_def split: sum.splits option.splits)
qed

lemma generate_asset_comfyui_timeout:
  assumes "queue_prompt env (build_workflow py_hash asset_name config seed) = Inr prompt_id"
    and "polls env = pre @ (now, reply) # rest"
    and "\<forall>p \<in> set pre. fst p - start_time env < 300 \<and>
             (\<exists>hist. snd p = Inr hist \<and> find_images prompt_id hist = None)"
    and "\<not> now - start_time env < 300"
  shows "generate_asset_comfyui py_hash env fs asset_name config seed = Some (False, fs)"
proof -
  have "wait_for_completion env prompt_id 300 = Some (Inr None)"
    unfolding wait_for_completion_def assms(2)
    using assms(3,4) by (rule wait_loop_times_out)
  with assms(1) have "fetch_image env (build_workflow py_hash asset_name config seed) =
      Some (Inr None)"
    by (rule fetch_image_timeout)
  then show ?thesis by (simp add: generate_asset_comfyui_def)
qed

lemma serving_env_fetch:
  "fetch_image serving_env flow = Some (Inr (Some [137, 80, 78]))"
  by (simp add: fetch_image_def serving_env_def queue_prompt_def wait_for_completion_def
      find_images_def icon_info_def get_image_def)




end
